theory Spec2Isabelle
  imports Main "HOL-Library.Multiset"
begin

section \<open>Data model of app.py\<close>

text \<open>
  A calendar date (Python's \<open>datetime.date\<close>) is represented by its proleptic ordinal
  (\<open>date.toordinal()\<close>); only equality and the order of dates are used by the handlers.
\<close>

type_synonym date = int

text \<open>
  Class \<open>Usuario\<close>. Column \<open>id\<close> is field \<open>u_id\<close>. Columns declared
  \<open>nullable=False\<close> carry a value; the other columns are optional.
\<close>

record usuario =
  u_id :: int
  email :: string
  senha_hash :: string
  nome :: "string option"
  imagem_url :: "string option"
  imagem_public_id :: "string option"
  onboarding_required :: bool

text \<open>Class \<open>Registro\<close>. Column \<open>id\<close> is field \<open>r_id\<close>.\<close>

record registro =
  r_id :: int
  data :: date
  humor :: string
  como_se_sentiu :: string
  descricao :: "string option"
  horas_sono :: string
  id_usuario :: int

text \<open>
  The database: the two tables, each as the list of its rows in the order in which the
  rows were inserted.
\<close>

record database =
  usuarios :: "usuario list"
  registros :: "registro list"

definition empty_db :: database where
  "empty_db = \<lparr>usuarios = [], registros = []\<rparr>"

text \<open>
  An exception that escapes a handler: \<open>AttributeError\<close> for an attribute access on
  \<open>None\<close>, \<open>IntegrityError\<close> for a row the store rejects, \<open>LibraryError\<close> for
  an exception raised inside a library call (hashing a missing password, a failed upload).
\<close>

datatype exn = AttributeError | IntegrityError | LibraryError

text \<open>The message literals of the handlers, one constructor for each literal.\<close>

datatype msg =
    UserAlreadyExists
  | UsuarioCriado
  | IncorrectUsernameOrPassword
  | OnboardingAtualizado
  | UsuarioNaoEncontrado
  | OnboardingConcluido
  | JaRegistrouHoje
  | RegistroSalvo
  | NenhumArquivoEnviado

record registro_view =
  v_data :: string
  v_humor :: string
  v_como_se_sentiu :: string
  v_descricao :: "string option"
  v_horas_sono :: string

datatype body =
    Msg msg
  | LoginBody string int bool
  | Registros "registro_view list"
  | OnboardingRequired bool
  | Me "string option" string string
  | Imagem string string
  | JaRegistrou bool

text \<open>
  What a handler answers: a JSON body with its status code, or an exception that is not
  caught (the framework then answers with status 500).
\<close>

datatype response = Resp nat body | Unhandled exn

text \<open>
  The library functions the handlers call: werkzeug's salted password hash and its
  verification, the token issuer (identity and expiry in days), and the rendering of a
  date by \<open>strftime("%Y-%m-%d")\<close>.
\<close>

record collab =
  generate_password_hash :: "string \<Rightarrow> string \<Rightarrow> string"
  check_password_hash :: "string \<Rightarrow> string \<Rightarrow> bool"
  create_access_token :: "string \<Rightarrow> int \<Rightarrow> string"
  strftime :: "date \<Rightarrow> string"

section \<open>The store\<close>

text \<open>
  An integer primary key of a SQLite table without AUTOINCREMENT: 1 in an empty table,
  otherwise one more than the largest key in the table.
\<close>

definition next_id :: "int list \<Rightarrow> int" where
  "next_id ids = (if ids = [] then 1 else Max (set ids) + 1)"

text \<open>
  Insertion of a \<open>Usuario(email=..., senha_hash=...)\<close>: both columns are NOT NULL and
  \<open>email\<close> is unique; the other columns take their defaults.
\<close>

definition novo_usuario :: "usuario list \<Rightarrow> string \<Rightarrow> string \<Rightarrow> usuario" where
  "novo_usuario rows e h =
     \<lparr>u_id = next_id (map u_id rows), email = e, senha_hash = h, nome = Some ''User'',
      imagem_url = None, imagem_public_id = None, onboarding_required = True\<rparr>"

definition usuario_insert :: "string option \<Rightarrow> string \<Rightarrow> usuario list \<Rightarrow> exn + usuario list" where
  "usuario_insert e h rows =
     (case e of
        None \<Rightarrow> Inl IntegrityError
      | Some e' \<Rightarrow>
          if e' \<in> set (map email rows) then Inl IntegrityError
          else Inr (rows @ [novo_usuario rows e' h]))"

text \<open>
  Insertion of a \<open>Registro\<close>: \<open>humor\<close>, \<open>como_se_sentiu\<close> and \<open>horas_sono\<close> are
  NOT NULL, \<open>descricao\<close> is nullable. The class declares no other constraint; the
  foreign key is not enforced (SQLite's default).
\<close>

definition novo_registro ::
  "registro list \<Rightarrow> date \<Rightarrow> string \<Rightarrow> string \<Rightarrow> string option \<Rightarrow> string \<Rightarrow> int \<Rightarrow> registro" where
  "novo_registro rows d h c ds hs uid =
     \<lparr>r_id = next_id (map r_id rows), data = d, humor = h, como_se_sentiu = c,
      descricao = ds, horas_sono = hs, id_usuario = uid\<rparr>"

definition registro_insert ::
  "date \<Rightarrow> string option \<Rightarrow> string option \<Rightarrow> string option \<Rightarrow> string option \<Rightarrow> int
     \<Rightarrow> registro list \<Rightarrow> exn + registro list" where
  "registro_insert d h c ds hs uid rows =
     (case (h, c, hs) of
        (Some h', Some c', Some hs') \<Rightarrow> Inr (rows @ [novo_registro rows d h' c' ds hs' uid])
      | _ \<Rightarrow> Inl IntegrityError)"

text \<open>\<open>db.session.delete(r)\<close>: the row with the primary key of \<open>r\<close> goes.\<close>

definition registro_delete :: "registro \<Rightarrow> registro list \<Rightarrow> registro list" where
  "registro_delete r rows = filter (\<lambda>x. r_id x \<noteq> r_id r) rows"

text \<open>\<open>Usuario.query.get(usuario_id)\<close>\<close>

definition usuario_get :: "usuario list \<Rightarrow> int \<Rightarrow> usuario option" where
  "usuario_get rows i = find (\<lambda>u. u_id u = i) rows"

text \<open>
  \<open>Usuario.query.filter_by(email=email).first()\<close>; a missing email compares with NULL
  and matches no row.
\<close>

definition usuario_by_email :: "usuario list \<Rightarrow> string option \<Rightarrow> usuario option" where
  "usuario_by_email rows e =
     (case e of None \<Rightarrow> None | Some e' \<Rightarrow> find (\<lambda>u. email u = e') rows)"

text \<open>
  The commit of attribute assignments on the loaded \<open>Usuario\<close>: the assigned columns
  change in the row with that primary key.
\<close>

definition usuario_update :: "int \<Rightarrow> (usuario \<Rightarrow> usuario) \<Rightarrow> usuario list \<Rightarrow> usuario list" where
  "usuario_update i f rows = map (\<lambda>u. if u_id u = i then f u else u) rows"

text \<open>\<open>Registro.query.filter_by(id_usuario=usuario_id)\<close>\<close>

definition registros_de :: "int \<Rightarrow> registro list \<Rightarrow> registro list" where
  "registros_de uid rows = filter (\<lambda>r. id_usuario r = uid) rows"

text \<open>\<open>Registro.query.filter_by(id_usuario=usuario_id, data=d).first()\<close>\<close>

definition registro_first :: "registro list \<Rightarrow> int \<Rightarrow> date \<Rightarrow> registro option" where
  "registro_first rows uid d = find (\<lambda>r. id_usuario r = uid \<and> data r = d) rows"

text \<open>Truth value of an optional string: \<open>None\<close> and the empty string are false.\<close>

definition truthy :: "string option \<Rightarrow> bool" where
  "truthy s = (case s of None \<Rightarrow> False | Some t \<Rightarrow> t \<noteq> [])"

section \<open>The handlers\<close>

text \<open>
  Each handler takes the database and the inputs of the request (the identity of the
  token as \<open>usuario_id\<close>, the fields of the JSON body as optional strings, the reading
  of \<open>date.today()\<close> as \<open>hoje\<close>) and returns the database after the request with the
  response. An exception leaves the database as it was at the last commit.
\<close>

definition register ::
  "collab \<Rightarrow> database \<Rightarrow> string option \<Rightarrow> string option \<Rightarrow> string \<Rightarrow> database \<times> response" where
  "register c db email_in senha salt =
     (if usuario_by_email (usuarios db) email_in \<noteq> None then
        (db, Resp 400 (Msg UserAlreadyExists))
      else
        (case senha of
           None \<Rightarrow> (db, Unhandled LibraryError)
         | Some s \<Rightarrow>
             (case usuario_insert email_in (generate_password_hash c salt s) (usuarios db) of
                Inl e \<Rightarrow> (db, Unhandled e)
              | Inr us \<Rightarrow> (db\<lparr>usuarios := us\<rparr>, Resp 201 (Msg UsuarioCriado)))))"

text \<open>\<open>str\<close> of a Python integer.\<close>

function str_nat :: "nat \<Rightarrow> string" where
  "str_nat n =
     (if n < 10 then [char_of (48 + n)]
      else str_nat (n div 10) @ [char_of (48 + n mod 10)])"
  by pat_completeness auto
termination
  by (relation "measure (\<lambda>n. n)") auto

definition str_int :: "int \<Rightarrow> string" where
  "str_int i = (if i < 0 then CHR ''-'' # str_nat (nat (- i)) else str_nat (nat i))"

definition login ::
  "collab \<Rightarrow> database \<Rightarrow> string option \<Rightarrow> string option \<Rightarrow> database \<times> response" where
  "login c db email_in senha =
     (case usuario_by_email (usuarios db) email_in of
        None \<Rightarrow> (db, Resp 401 (Msg IncorrectUsernameOrPassword))
      | Some u \<Rightarrow>
          (case senha of
             None \<Rightarrow> (db, Unhandled LibraryError)
           | Some s \<Rightarrow>
               if \<not> check_password_hash c (senha_hash u) s then
                 (db, Resp 401 (Msg IncorrectUsernameOrPassword))
               else
                 (db, Resp 200 (LoginBody (create_access_token c (str_int (u_id u)) 1)
                                  (u_id u) (onboarding_required u)))))"

definition onboarding :: "database \<Rightarrow> int \<Rightarrow> string option \<Rightarrow> database \<times> response" where
  "onboarding db usuario_id nome_in =
     (case usuario_get (usuarios db) usuario_id of
        None \<Rightarrow> (db, Unhandled AttributeError)
      | Some u \<Rightarrow>
          (db\<lparr>usuarios :=
                usuario_update usuario_id
                  (\<lambda>x. (if truthy nome_in then x\<lparr>nome := nome_in\<rparr> else x)
                          \<lparr>onboarding_required := False\<rparr>)
                  (usuarios db)\<rparr>,
           Resp 200 (Msg OnboardingAtualizado)))"

definition update_onboarding :: "database \<Rightarrow> int \<Rightarrow> database \<times> response" where
  "update_onboarding db usuario_id =
     (case usuario_get (usuarios db) usuario_id of
        None \<Rightarrow> (db, Resp 404 (Msg UsuarioNaoEncontrado))
      | Some u \<Rightarrow>
          (db\<lparr>usuarios :=
                usuario_update usuario_id (\<lambda>x. x\<lparr>onboarding_required := False\<rparr>) (usuarios db)\<rparr>,
           Resp 200 (Msg OnboardingConcluido)))"

text \<open>
  The retention step of \<open>registrar_dados\<close>: the rows of the account, newest key first;
  past the eleventh, each row is deleted.
\<close>

definition podar :: "int \<Rightarrow> registro list \<Rightarrow> registro list" where
  "podar usuario_id rows =
     (let regs = sort_key (\<lambda>r. - r_id r) (registros_de usuario_id rows)
      in if length regs > 11 then fold registro_delete (drop 11 regs) rows else rows)"

definition registrar_dados ::
  "database \<Rightarrow> date \<Rightarrow> int \<Rightarrow> string option \<Rightarrow> string option \<Rightarrow> string option \<Rightarrow> string option
     \<Rightarrow> database \<times> response" where
  "registrar_dados db hoje usuario_id humor_in como_in descricao_in horas_in =
     (if registro_first (registros db) usuario_id hoje \<noteq> None then
        (db, Resp 400 (Msg JaRegistrouHoje))
      else
        (case registro_insert hoje humor_in como_in descricao_in horas_in usuario_id
                (registros db) of
           Inl e \<Rightarrow> (db, Unhandled e)
         | Inr rs \<Rightarrow> (db\<lparr>registros := podar usuario_id rs\<rparr>, Resp 201 (Msg RegistroSalvo))))"

definition view :: "collab \<Rightarrow> registro \<Rightarrow> registro_view" where
  "view c r = \<lparr>v_data = strftime c (data r), v_humor = humor r,
               v_como_se_sentiu = como_se_sentiu r, v_descricao = descricao r,
               v_horas_sono = horas_sono r\<rparr>"

text \<open>
  \<open>order_by(Registro.data.desc()).limit(11)\<close>: rows of equal date are kept in table
  order (the store leaves their order open).
\<close>

definition recentes :: "int \<Rightarrow> registro list \<Rightarrow> registro list" where
  "recentes usuario_id rows = take 11 (sort_key (\<lambda>r. - data r) (registros_de usuario_id rows))"

definition obter_registros :: "collab \<Rightarrow> database \<Rightarrow> int \<Rightarrow> database \<times> response" where
  "obter_registros c db usuario_id =
     (let regs = recentes usuario_id (registros db);
          resultado = map (view c) regs
      in (db, Resp 200 (Registros (rev resultado))))"

definition check_onboarding :: "database \<Rightarrow> int \<Rightarrow> database \<times> response" where
  "check_onboarding db usuario_id =
     (case usuario_get (usuarios db) usuario_id of
        None \<Rightarrow> (db, Resp 404 (Msg UsuarioNaoEncontrado))
      | Some u \<Rightarrow> (db, Resp 200 (OnboardingRequired (onboarding_required u))))"

definition get_usuario :: "database \<Rightarrow> int \<Rightarrow> database \<times> response" where
  "get_usuario db usuario_id =
     (case usuario_get (usuarios db) usuario_id of
        None \<Rightarrow> (db, Resp 404 (Msg UsuarioNaoEncontrado))
      | Some u \<Rightarrow>
          (db, Resp 200 (Me (nome u) (email u)
                           (if truthy (imagem_url u) then the (imagem_url u)
                            else ''/avatar-placeholder.svg''))))"

text \<open>
  The uploaded file of the request. A file object is false when its name is empty.
  The asset host is outside the program: whether \<open>destroy\<close> raises and what
  \<open>upload\<close> returns are inputs, and the calls made are returned as a trace.
\<close>

record file_storage =
  filename :: string
  content :: string

datatype upload_result = UploadRaises | UploadOk string string

datatype event = CloudDestroy string | PrintErro | CloudUpload file_storage

definition file_given :: "file_storage option \<Rightarrow> bool" where
  "file_given imagem = (case imagem of None \<Rightarrow> False | Some f \<Rightarrow> filename f \<noteq> [])"

definition upload_image ::
  "database \<Rightarrow> int \<Rightarrow> file_storage option \<Rightarrow> bool \<Rightarrow> upload_result \<Rightarrow> database \<times> event list \<times> response" where
  "upload_image db usuario_id imagem destroy_raises result =
     (if \<not> file_given imagem then (db, [], Resp 400 (Msg NenhumArquivoEnviado))
      else
        (case usuario_get (usuarios db) usuario_id of
           None \<Rightarrow> (db, [], Unhandled AttributeError)
         | Some u \<Rightarrow>
             (let ev = (if truthy (imagem_public_id u)
                        then CloudDestroy (the (imagem_public_id u))
                               # (if destroy_raises then [PrintErro] else [])
                        else [])
                       @ [CloudUpload (the imagem)]
              in (case result of
                    UploadRaises \<Rightarrow> (db, ev, Unhandled LibraryError)
                  | UploadOk url pid \<Rightarrow>
                      (db\<lparr>usuarios :=
                            usuario_update usuario_id
                              (\<lambda>x. x\<lparr>imagem_url := Some url, imagem_public_id := Some pid\<rparr>)
                              (usuarios db)\<rparr>,
                       ev, Resp 200 (Imagem url pid))))))"

definition ja_registrou_hoje :: "database \<Rightarrow> date \<Rightarrow> int \<Rightarrow> database \<times> response" where
  "ja_registrou_hoje db hoje usuario_id =
     (db, Resp 200 (JaRegistrou (registro_first (registros db) usuario_id hoje \<noteq> None)))"

section \<open>Requests and runs\<close>

datatype request =
    ReqRegister "string option" "string option" string
  | ReqLogin "string option" "string option"
  | ReqOnboarding int "string option"
  | ReqUpdateOnboarding int
  | ReqRegistro date int "string option" "string option" "string option" "string option"
  | ReqRegistros int
  | ReqCheckOnboarding int
  | ReqMe int
  | ReqUploadImage int "file_storage option" bool upload_result
  | ReqJaRegistrouHoje date int

fun handle :: "collab \<Rightarrow> database \<Rightarrow> request \<Rightarrow> database \<times> response" where
  "handle c db (ReqRegister e s salt) = register c db e s salt"
| "handle c db (ReqLogin e s) = login c db e s"
| "handle c db (ReqOnboarding i n) = onboarding db i n"
| "handle c db (ReqUpdateOnboarding i) = update_onboarding db i"
| "handle c db (ReqRegistro d i h cs ds hs) = registrar_dados db d i h cs ds hs"
| "handle c db (ReqRegistros i) = obter_registros c db i"
| "handle c db (ReqCheckOnboarding i) = check_onboarding db i"
| "handle c db (ReqMe i) = get_usuario db i"
| "handle c db (ReqUploadImage i f dr ur) =
     (case upload_image db i f dr ur of (db', ev, r) \<Rightarrow> (db', r))"
| "handle c db (ReqJaRegistrouHoje d i) = ja_registrou_hoje db d i"

text \<open>The database after a sequence of requests served one after the other.\<close>

fun run :: "collab \<Rightarrow> database \<Rightarrow> request list \<Rightarrow> database" where
  "run c db [] = db"
| "run c db (q # qs) = run c (fst (handle c db q)) qs"

text \<open>The onboarding flag of an account, as \<open>check_onboarding\<close> reads it.\<close>

definition onboarding_flag :: "database \<Rightarrow> int \<Rightarrow> bool option" where
  "onboarding_flag db i = map_option onboarding_required (usuario_get (usuarios db) i)"

text \<open>
  An update of an account row that keeps its key, email and hash and does not raise the
  onboarding flag.
\<close>

definition keeps_identity :: "(usuario \<Rightarrow> usuario) \<Rightarrow> bool" where
  "keeps_identity f = (\<forall>x. u_id (f x) = u_id x \<and> email (f x) = email x
        \<and> senha_hash (f x) = senha_hash x \<and> (onboarding_required (f x) \<longrightarrow> onboarding_required x))"

text \<open>
  Properties of the \<open>registros\<close> table: the rows stand in increasing order of their
  keys (the order of insertion is the order of the keys); no account has more than eleven
  rows; no account has two rows of one date.
\<close>

definition registros_wf :: "registro list \<Rightarrow> bool" where
  "registros_wf rows = sorted_wrt (<) (map r_id rows)"

definition retention_ok :: "registro list \<Rightarrow> bool" where
  "retention_ok rows = (\<forall>r \<in> set rows. length (registros_de (id_usuario r) rows) \<le> 11)"

definition um_por_dia :: "registro list \<Rightarrow> bool" where
  "um_por_dia rows = distinct (map (\<lambda>r. (id_usuario r, data r)) rows)"

section \<open>Sample data\<close>

definition ana :: usuario where
  "ana = \<lparr>u_id = 1, email = ''a@x.com'', senha_hash = ''h1'', nome = Some ''User'',
          imagem_url = Some ''https://host/old.png'', imagem_public_id = Some ''mood/old'',
          onboarding_required = True\<rparr>"

text \<open>
  A stand-in for the libraries, for concrete runs: the hash is the salt, a dollar sign and
  the password; verification compares the end of the hash.
\<close>

definition toy :: collab where
  "toy = \<lparr>generate_password_hash = (\<lambda>salt pw. salt @ CHR ''$'' # pw),
          check_password_hash = (\<lambda>h pw. drop (length h - length pw - 1) h = CHR ''$'' # pw),
          create_access_token = (\<lambda>ident days. ''jwt:'' @ ident @ '':'' @ str_int days),
          strftime = str_int\<rparr>"

definition foto :: file_storage where
  "foto = \<lparr>filename = ''me.png'', content = ''bytes''\<rparr>"

definition reg :: "int \<Rightarrow> date \<Rightarrow> int \<Rightarrow> registro" where
  "reg k d u = \<lparr>r_id = k, data = d, humor = ''ok'', como_se_sentiu = ''calm'',
               descricao = None, horas_sono = ''7'', id_usuario = u\<rparr>"

text \<open>
  Eleven rows of account 1 and one of account 2. The oldest row of account 1 by key
  (key 1) has a later date than its ten other rows.
\<close>

definition onze :: "registro list" where
  "onze = [reg 1 50 1, reg 2 10 1, reg 3 55 2, reg 4 11 1, reg 5 12 1, reg 6 13 1,
           reg 7 14 1, reg 8 15 1, reg 9 16 1, reg 10 17 1, reg 11 18 1, reg 12 19 1]"

section \<open>Lookups\<close>

lemma registro_first_iff:
  "(registro_first rows uid d \<noteq> None) = (\<exists>r \<in> set rows. id_usuario r = uid \<and> data r = d)"
  by (auto simp: registro_first_def find_None_iff)

section \<open>Onboarding of a missing account\<close>

lemma onboarding_no_account:
  "usuario_get (usuarios db) usuario_id = None \<Longrightarrow>
     onboarding db usuario_id nome_in = (db, Unhandled AttributeError)"
  by (simp add: onboarding_def)

text \<open>
  Claim C3. For an identity with no \<open>Usuario\<close> row, \<open>onboarding\<close> is expected to answer
  404. On the empty database with identity 1 it ends in an uncaught \<open>AttributeError\<close>
  instead, with or without a name; \<open>update_onboarding\<close> on the same input answers 404.
\<close>

theorem onboarding_missing_account_crashes:
  "usuario_get (usuarios empty_db) 1 = None
   \<and> onboarding empty_db 1 (Some ''Ana'') = (empty_db, Unhandled AttributeError)
   \<and> onboarding empty_db 1 None = (empty_db, Unhandled AttributeError)
   \<and> update_onboarding empty_db 1 = (empty_db, Resp 404 (Msg UsuarioNaoEncontrado))"
  by (simp add: onboarding_def update_onboarding_def usuario_get_def empty_db_def)

section \<open>Has the account recorded today\<close>

text \<open>
  Claim C10. \<open>ja_registrou_hoje\<close> answers 200 with a boolean for every identity: true
  exactly when a \<open>Registro\<close> of that identity and today's date exists. It leaves the
  database as it is, its answer does not depend on the \<open>usuarios\<close> table, and it is
  never the 404 of a missing account.
\<close>

theorem ja_registrou_hoje_never_not_found:
  "ja_registrou_hoje db hoje usuario_id =
     (db, Resp 200 (JaRegistrou (\<exists>r \<in> set (registros db). id_usuario r = usuario_id \<and> data r = hoje)))
   \<and> snd (ja_registrou_hoje (db\<lparr>usuarios := us\<rparr>) hoje usuario_id)
       = snd (ja_registrou_hoje db hoje usuario_id)
   \<and> snd (ja_registrou_hoje db hoje usuario_id) \<noteq> Resp 404 (Msg UsuarioNaoEncontrado)"
  unfolding ja_registrou_hoje_def registro_first_iff by simp

theorem ja_registrou_hoje_never_not_found_witness:
  "usuario_get (usuarios empty_db) 7 = None
   \<and> ja_registrou_hoje empty_db 100 7 = (empty_db, Resp 200 (JaRegistrou False))"
  using ja_registrou_hoje_never_not_found [of empty_db 100 7 "[]"]
  by (simp add: empty_db_def usuario_get_def)

lemma find_map_preserve:
  "(\<And>x. P (g x) = P x) \<Longrightarrow> find P (map g xs) = map_option g (find P xs)"
  by (induction xs) auto

lemma usuario_get_update:
  assumes "\<And>x. u_id (f x) = u_id x"
  shows "usuario_get (usuario_update i f rows) j
           = map_option (\<lambda>u. if u_id u = i then f u else u) (usuario_get rows j)"
  unfolding usuario_get_def usuario_update_def
  by (rule find_map_preserve) (simp add: assms)

lemma usuario_by_email_update:
  assumes "\<And>x. email (f x) = email x"
  shows "usuario_by_email (usuario_update i f rows) e
           = map_option (\<lambda>u. if u_id u = i then f u else u) (usuario_by_email rows e)"
proof (cases e)
  case None
  then show ?thesis by (simp add: usuario_by_email_def)
next
  case (Some a)
  have "find (\<lambda>u. email u = a) (map (\<lambda>u. if u_id u = i then f u else u) rows)
          = map_option (\<lambda>u. if u_id u = i then f u else u) (find (\<lambda>u. email u = a) rows)"
    by (rule find_map_preserve) (simp add: assms)
  with Some show ?thesis by (simp add: usuario_by_email_def usuario_update_def)
qed

lemma usuario_get_Some_id: "usuario_get rows i = Some u \<Longrightarrow> u_id u = i"
  by (auto simp: usuario_get_def find_Some_iff)

section \<open>Replacing the profile image\<close>

lemma upload_image_no_file:
  "\<not> file_given imagem \<Longrightarrow>
     upload_image db i imagem dr res = (db, [], Resp 400 (Msg NenhumArquivoEnviado))"
  by (simp add: upload_image_def)

lemma upload_image_trace:
  assumes "file_given imagem" "usuario_get (usuarios db) i = Some u"
    "imagem_public_id u = Some p" "p \<noteq> []"
  shows "fst (snd (upload_image db i imagem dr res))
           = CloudDestroy p # (if dr then [PrintErro] else []) @ [CloudUpload (the imagem)]"
  using assms by (simp add: upload_image_def truthy_def Let_def split: upload_result.splits)

lemma upload_image_destroy_swallowed:
  "fst (upload_image db i imagem True res) = fst (upload_image db i imagem False res)
   \<and> snd (snd (upload_image db i imagem True res)) = snd (snd (upload_image db i imagem False res))"
  by (simp add: upload_image_def Let_def split: option.splits upload_result.splits)

lemma upload_image_ok:
  assumes "file_given imagem" "usuario_get (usuarios db) i = Some u"
  shows "fst (upload_image db i imagem dr (UploadOk url pid))
           = db\<lparr>usuarios := usuario_update i
                  (\<lambda>x. x\<lparr>imagem_url := Some url, imagem_public_id := Some pid\<rparr>) (usuarios db)\<rparr>"
    and "snd (snd (upload_image db i imagem dr (UploadOk url pid))) = Resp 200 (Imagem url pid)"
    and "usuario_get (usuarios (fst (upload_image db i imagem dr (UploadOk url pid)))) i
           = Some (u\<lparr>imagem_url := Some url, imagem_public_id := Some pid\<rparr>)"
  using assms usuario_get_Some_id [OF assms(2)]
  by (simp_all add: upload_image_def Let_def usuario_get_update)

text \<open>
  Claim C9. Without a file \<open>upload_image\<close> answers 400 and changes nothing. With a file
  and an account whose \<open>imagem_public_id\<close> is set, the first call to the asset host is
  the deletion of the old asset and the upload follows, whether or not the deletion raised;
  the database and the response are the same in both cases. When the upload returns, one
  update of the row sets \<open>imagem_url\<close> and \<open>imagem_public_id\<close> together and the
  response is 200 with both.
\<close>

theorem upload_image_contract:
  "(\<not> file_given imagem \<longrightarrow>
      upload_image db i imagem dr res = (db, [], Resp 400 (Msg NenhumArquivoEnviado)))
   \<and> (file_given imagem \<and> usuario_get (usuarios db) i = Some u
        \<and> imagem_public_id u = Some p \<and> p \<noteq> [] \<longrightarrow>
        fst (snd (upload_image db i imagem dr res))
          = CloudDestroy p # (if dr then [PrintErro] else []) @ [CloudUpload (the imagem)])
   \<and> fst (upload_image db i imagem True res) = fst (upload_image db i imagem False res)
   \<and> snd (snd (upload_image db i imagem True res)) = snd (snd (upload_image db i imagem False res))
   \<and> (file_given imagem \<and> usuario_get (usuarios db) i = Some u \<longrightarrow>
        fst (upload_image db i imagem dr (UploadOk url pid))
          = db\<lparr>usuarios := usuario_update i
                 (\<lambda>x. x\<lparr>imagem_url := Some url, imagem_public_id := Some pid\<rparr>) (usuarios db)\<rparr>
        \<and> snd (snd (upload_image db i imagem dr (UploadOk url pid))) = Resp 200 (Imagem url pid)
        \<and> usuario_get (usuarios (fst (upload_image db i imagem dr (UploadOk url pid)))) i
            = Some (u\<lparr>imagem_url := Some url, imagem_public_id := Some pid\<rparr>))"
  using upload_image_no_file [of imagem db i dr res]
    upload_image_trace [of imagem db i u p dr res]
    upload_image_destroy_swallowed [of db i imagem res]
    upload_image_ok [of imagem db i u dr url pid]
  by blast

theorem upload_image_contract_witness:
  "\<not> file_given None
   \<and> upload_image \<lparr>usuarios = [ana], registros = []\<rparr> 1 None True UploadRaises
       = (\<lparr>usuarios = [ana], registros = []\<rparr>, [], Resp 400 (Msg NenhumArquivoEnviado))
   \<and> file_given (Some foto)
   \<and> usuario_get [ana] 1 = Some ana \<and> imagem_public_id ana = Some ''mood/old''
   \<and> upload_image \<lparr>usuarios = [ana], registros = []\<rparr> 1 (Some foto) True (UploadOk ''https://host/new.png'' ''mood/new'')
       = (\<lparr>usuarios = [ana\<lparr>imagem_url := Some ''https://host/new.png'',
                              imagem_public_id := Some ''mood/new''\<rparr>], registros = []\<rparr>,
          [CloudDestroy ''mood/old'', PrintErro, CloudUpload foto],
          Resp 200 (Imagem ''https://host/new.png'' ''mood/new''))"
  using upload_image_contract [of None "\<lparr>usuarios = [ana], registros = []\<rparr>" 1 True UploadRaises
      ana "''mood/old''" "''https://host/new.png''" "''mood/new''"]
    upload_image_contract [of "Some foto" "\<lparr>usuarios = [ana], registros = []\<rparr>" 1 True
      "UploadOk ''https://host/new.png'' ''mood/new''"
      ana "''mood/old''" "''https://host/new.png''" "''mood/new''"]
  by (simp add: file_given_def usuario_get_def ana_def foto_def upload_image_def truthy_def
      usuario_update_def)

section \<open>Accounts: registration, identity and the onboarding flag\<close>

lemma find_append_eq:
  "find P (xs @ ys) = (case find P xs of None \<Rightarrow> find P ys | Some x \<Rightarrow> Some x)"
  by (induction xs) auto

lemma usuario_by_email_None_iff:
  "(usuario_by_email rows (Some e) = None) = (e \<notin> set (map email rows))"
  by (auto simp: usuario_by_email_def find_None_iff)

lemma register_conflict:
  "usuario_by_email (usuarios db) email_in \<noteq> None \<Longrightarrow>
     register c db email_in senha salt = (db, Resp 400 (Msg UserAlreadyExists))"
  by (simp add: register_def)

lemma register_created:
  assumes "register c db email_in senha salt = (db', Resp 201 (Msg m))"
  shows "\<exists>e s. email_in = Some e \<and> senha = Some s \<and> m = UsuarioCriado
           \<and> e \<notin> set (map email (usuarios db))
           \<and> db' = db\<lparr>usuarios := usuarios db
                    @ [novo_usuario (usuarios db) e (generate_password_hash c salt s)]\<rparr>"
  using assms
  by (cases email_in; cases senha)
     (auto simp: register_def usuario_insert_def usuario_by_email_def find_None_iff
           split: if_splits)

lemma register_fresh:
  assumes "usuario_by_email (usuarios db) (Some e) = None"
  shows "register c db (Some e) (Some s) salt
           = (db\<lparr>usuarios := usuarios db
                  @ [novo_usuario (usuarios db) e (generate_password_hash c salt s)]\<rparr>,
              Resp 201 (Msg UsuarioCriado))"
  using assms usuario_by_email_None_iff [of "usuarios db" e]
  by (simp add: register_def usuario_insert_def)

lemma usuarios_step:
  "usuarios (fst (handle c db q)) = usuarios db
   \<or> (\<exists>i f. keeps_identity f \<and> usuarios (fst (handle c db q)) = usuario_update i f (usuarios db))
   \<or> (\<exists>e h. e \<notin> set (map email (usuarios db))
         \<and> usuarios (fst (handle c db q)) = usuarios db @ [novo_usuario (usuarios db) e h])"
proof (cases q)
  case (ReqRegister e s salt)
  show ?thesis
  proof (cases "snd (register c db e s salt) = Resp 201 (Msg UsuarioCriado)")
    case True
    then have "register c db e s salt = (fst (register c db e s salt), Resp 201 (Msg UsuarioCriado))"
      by (metis prod.collapse)
    from register_created [OF this] obtain e' s' where
      fresh: "e' \<notin> set (map email (usuarios db))" and
      db': "fst (register c db e s salt) = db\<lparr>usuarios := usuarios db
              @ [novo_usuario (usuarios db) e' (generate_password_hash c salt s')]\<rparr>"
      by blast
    from db' have "usuarios (fst (handle c db q))
        = usuarios db @ [novo_usuario (usuarios db) e' (generate_password_hash c salt s')]"
      using ReqRegister by simp
    with fresh show ?thesis by blast
  next
    case False
    then have "fst (register c db e s salt) = db"
      by (auto simp: register_def split: option.splits sum.splits)
    then show ?thesis using ReqRegister by simp
  qed
next
  case (ReqLogin e s)
  then show ?thesis by (simp add: login_def split: option.splits)
next
  case (ReqOnboarding i n)
  have "keeps_identity (\<lambda>x. (if truthy n then x\<lparr>nome := n\<rparr> else x)\<lparr>onboarding_required := False\<rparr>)"
    by (simp add: keeps_identity_def)
  then show ?thesis using ReqOnboarding
    by (auto simp: onboarding_def split: option.splits)
next
  case (ReqUpdateOnboarding i)
  have "keeps_identity (\<lambda>x. x\<lparr>onboarding_required := False\<rparr>)"
    by (simp add: keeps_identity_def)
  then show ?thesis using ReqUpdateOnboarding
    by (auto simp: update_onboarding_def split: option.splits)
next
  case (ReqRegistro d i h cs ds hs)
  then show ?thesis by (simp add: registrar_dados_def split: sum.splits)
next
  case (ReqRegistros i)
  then show ?thesis by (simp add: obter_registros_def Let_def)
next
  case (ReqCheckOnboarding i)
  then show ?thesis by (simp add: check_onboarding_def split: option.splits)
next
  case (ReqMe i)
  then show ?thesis by (simp add: get_usuario_def split: option.splits)
next
  case (ReqUploadImage i f dr ur)
  have k: "\<And>url pid. keeps_identity (\<lambda>x. x\<lparr>imagem_url := Some url, imagem_public_id := Some pid\<rparr>)"
    by (simp add: keeps_identity_def)
  show ?thesis using ReqUploadImage k
    by (auto simp: upload_image_def Let_def split: option.splits upload_result.splits)
next
  case (ReqJaRegistrouHoje d i)
  then show ?thesis by (simp add: ja_registrou_hoje_def)
qed


lemma map_email_update:
  "keeps_identity f \<Longrightarrow> map email (usuario_update i f rows) = map email rows"
  by (induction rows) (auto simp: usuario_update_def keeps_identity_def)

lemma emails_step:
  assumes "distinct (map email (usuarios db))"
  shows "distinct (map email (usuarios (fst (handle c db q))))"
  using usuarios_step [of c db q] assms
  by (auto simp: map_email_update novo_usuario_def)

lemma emails_run:
  "distinct (map email (usuarios db)) \<Longrightarrow> distinct (map email (usuarios (run c db qs)))"
  by (induction qs arbitrary: db) (auto simp: emails_step)

lemma flag_step:
  assumes "onboarding_flag db i = Some False"
  shows "onboarding_flag (fst (handle c db q)) i = Some False"
proof -
  from assms obtain u where u: "usuario_get (usuarios db) i = Some u" "\<not> onboarding_required u"
    by (auto simp: onboarding_flag_def)
  consider (same) "usuarios (fst (handle c db q)) = usuarios db"
    | (upd) j f where "keeps_identity f" "usuarios (fst (handle c db q)) = usuario_update j f (usuarios db)"
    | (new) e h where "usuarios (fst (handle c db q)) = usuarios db @ [novo_usuario (usuarios db) e h]"
    using usuarios_step [of c db q] by blast
  then show ?thesis
  proof cases
    case same
    then show ?thesis using assms by (simp add: onboarding_flag_def)
  next
    case upd
    then have "usuario_get (usuarios (fst (handle c db q))) i
                 = Some (if u_id u = j then f u else u)"
      using u by (simp add: usuario_get_update keeps_identity_def)
    then show ?thesis using u upd(1)
      by (auto simp: onboarding_flag_def keeps_identity_def)
  next
    case new
    then show ?thesis using u
      by (simp add: onboarding_flag_def usuario_get_def find_append_eq)
  qed
qed

lemma flag_run:
  "onboarding_flag db i = Some False \<Longrightarrow> onboarding_flag (run c db qs) i = Some False"
  by (induction qs arbitrary: db) (auto simp: flag_step)

lemma cred_step:
  assumes "usuario_by_email (usuarios db) (Some e) = Some u"
  shows "\<exists>u'. usuario_by_email (usuarios (fst (handle c db q))) (Some e) = Some u'
           \<and> u_id u' = u_id u \<and> senha_hash u' = senha_hash u"
proof -
  consider (same) "usuarios (fst (handle c db q)) = usuarios db"
    | (upd) j f where "keeps_identity f" "usuarios (fst (handle c db q)) = usuario_update j f (usuarios db)"
    | (new) e' h where "usuarios (fst (handle c db q)) = usuarios db @ [novo_usuario (usuarios db) e' h]"
    using usuarios_step [of c db q] by blast
  then show ?thesis
  proof cases
    case same
    then show ?thesis using assms by simp
  next
    case upd
    then have "usuario_by_email (usuarios (fst (handle c db q))) (Some e)
                 = Some (if u_id u = j then f u else u)"
      using assms by (simp add: usuario_by_email_update keeps_identity_def)
    then show ?thesis using upd(1) by (auto simp: keeps_identity_def)
  next
    case new
    then show ?thesis using assms
      by (simp add: usuario_by_email_def find_append_eq)
  qed
qed

lemma cred_run:
  "usuario_by_email (usuarios db) (Some e) = Some u \<Longrightarrow>
     \<exists>u'. usuario_by_email (usuarios (run c db qs)) (Some e) = Some u'
           \<and> u_id u' = u_id u \<and> senha_hash u' = senha_hash u"
proof (induction qs arbitrary: db u)
  case Nil
  then show ?case by simp
next
  case (Cons q qs)
  from cred_step [OF Cons.prems, of c q] obtain u1 where
    u1: "usuario_by_email (usuarios (fst (handle c db q))) (Some e) = Some u1"
      "u_id u1 = u_id u" "senha_hash u1 = senha_hash u"
    by blast
  from Cons.IH [OF u1(1)] u1(2,3) show ?case by auto
qed

lemma usuario_update_twice:
  assumes "\<And>x. u_id (f x) = u_id x"
  shows "usuario_update i g (usuario_update i f rows) = usuario_update i (\<lambda>x. g (f x)) rows"
  by (induction rows) (auto simp: usuario_update_def assms)

lemma onboarding_sets_flag:
  assumes "usuario_get (usuarios db) i = Some u"
  shows "onboarding_flag (fst (onboarding db i n)) i = Some False"
    and "snd (onboarding db i n) = Resp 200 (Msg OnboardingAtualizado)"
  using assms usuario_get_Some_id [OF assms]
  by (simp_all add: onboarding_def onboarding_flag_def usuario_get_update)

lemma update_onboarding_sets_flag:
  assumes "usuario_get (usuarios db) i = Some u"
  shows "onboarding_flag (fst (update_onboarding db i)) i = Some False"
    and "snd (update_onboarding db i) = Resp 200 (Msg OnboardingConcluido)"
  using assms usuario_get_Some_id [OF assms]
  by (simp_all add: update_onboarding_def onboarding_flag_def usuario_get_update)

lemma onboarding_idem:
  "fst (onboarding (fst (onboarding db i n)) i n) = fst (onboarding db i n)"
proof (cases "usuario_get (usuarios db) i")
  case None
  then show ?thesis by (simp add: onboarding_def)
next
  case (Some u)
  then show ?thesis using usuario_get_Some_id [OF Some]
    by (cases "truthy n") (simp_all add: onboarding_def usuario_get_update usuario_update_twice)
qed

lemma update_onboarding_idem:
  "fst (update_onboarding (fst (update_onboarding db i)) i) = fst (update_onboarding db i)"
proof (cases "usuario_get (usuarios db) i")
  case None
  then show ?thesis by (simp add: update_onboarding_def)
next
  case (Some u)
  then show ?thesis using usuario_get_Some_id [OF Some]
    by (simp add: update_onboarding_def usuario_get_update usuario_update_twice)
qed

lemma update_after_onboarding:
  "fst (update_onboarding (fst (onboarding db i n)) i) = fst (onboarding db i n)"
proof (cases "usuario_get (usuarios db) i")
  case None
  then show ?thesis by (simp add: onboarding_def update_onboarding_def)
next
  case (Some u)
  then show ?thesis using usuario_get_Some_id [OF Some]
    by (simp add: onboarding_def update_onboarding_def usuario_get_update usuario_update_twice)
qed

lemma next_id_fresh: "x \<in> set ids \<Longrightarrow> x < next_id ids"
proof -
  assume x: "x \<in> set ids"
  then have "ids \<noteq> []" by auto
  moreover have "x \<le> Max (set ids)" using x by simp
  ultimately show ?thesis by (simp add: next_id_def)
qed

lemma usuario_get_new:
  "usuario_get (rows @ [novo_usuario rows e h]) (next_id (map u_id rows))
     = Some (novo_usuario rows e h)"
proof -
  have "find (\<lambda>u. u_id u = next_id (map u_id rows)) rows = None"
    using next_id_fresh [of _ "map u_id rows"] by (fastforce simp: find_None_iff)
  then show ?thesis
    by (simp add: usuario_get_def find_append_eq novo_usuario_def)
qed

lemma register_flag:
  assumes "register c db email_in senha salt = (db', Resp 201 (Msg m))"
  shows "onboarding_flag db' (next_id (map u_id (usuarios db))) = Some True"
proof -
  from register_created [OF assms] obtain e s where
    "db' = db\<lparr>usuarios := usuarios db
              @ [novo_usuario (usuarios db) e (generate_password_hash c salt s)]\<rparr>"
    by blast
  then show ?thesis
    by (simp add: onboarding_flag_def usuario_get_new) (simp add: novo_usuario_def)
qed

text \<open>
  Claim C5. The account that \<open>register\<close> creates has \<open>onboarding_required\<close> true. For
  an existing account, \<open>onboarding\<close> and \<open>update_onboarding\<close> each leave the flag
  false. Once the flag of an account is false, it is false after every request and after
  every sequence of requests. Calling either operation a second time, or
  \<open>update_onboarding\<close> after \<open>onboarding\<close>, gives the database of the first call.
\<close>

theorem onboarding_required_one_way:
  "(register c db email_in senha salt = (db', Resp 201 (Msg m)) \<longrightarrow>
      onboarding_flag db' (next_id (map u_id (usuarios db))) = Some True)
   \<and> (usuario_get (usuarios db) i = Some u \<longrightarrow>
        onboarding_flag (fst (onboarding db i n)) i = Some False
        \<and> onboarding_flag (fst (update_onboarding db i)) i = Some False)
   \<and> (onboarding_flag db i = Some False \<longrightarrow>
        onboarding_flag (fst (handle c db q)) i = Some False
        \<and> onboarding_flag (run c db qs) i = Some False)
   \<and> fst (onboarding (fst (onboarding db i n)) i n) = fst (onboarding db i n)
   \<and> fst (update_onboarding (fst (update_onboarding db i)) i) = fst (update_onboarding db i)
   \<and> fst (update_onboarding (fst (onboarding db i n)) i) = fst (onboarding db i n)"
  using register_flag [of c db email_in senha salt db' m]
    onboarding_sets_flag(1) [of db i u n] update_onboarding_sets_flag(1) [of db i u]
    flag_step [of db i c q] flag_run [of db i c qs]
    onboarding_idem [of db i n] update_onboarding_idem [of db i]
    update_after_onboarding [of db i n]
  by blast

theorem onboarding_required_one_way_witness:
  "register toy empty_db (Some ''a@x.com'') (Some ''p1'') ''s''
     = (\<lparr>usuarios = [ana\<lparr>senha_hash := ''s$p1'', imagem_url := None, imagem_public_id := None\<rparr>],
         registros = []\<rparr>, Resp 201 (Msg UsuarioCriado))
   \<and> onboarding_flag \<lparr>usuarios = [ana], registros = []\<rparr> 1 = Some True
   \<and> usuario_get [ana] 1 = Some ana
   \<and> onboarding_flag (fst (onboarding \<lparr>usuarios = [ana], registros = []\<rparr> 1 (Some ''Ana''))) 1 = Some False
   \<and> onboarding_flag
        (run toy (fst (onboarding \<lparr>usuarios = [ana], registros = []\<rparr> 1 (Some ''Ana'')))
           [ReqRegister (Some ''b@x.com'') (Some ''p2'') ''s'', ReqOnboarding 1 None,
            ReqUpdateOnboarding 1, ReqLogin (Some ''a@x.com'') (Some ''p1'')]) 1 = Some False"
  using onboarding_required_one_way [where c = toy and db = "\<lparr>usuarios = [ana], registros = []\<rparr>"
      and i = 1 and u = ana and n = "Some ''Ana''" and email_in = None and senha = None
      and salt = "[]" and db' = empty_db and m = UsuarioCriado
      and q = "ReqUpdateOnboarding 1" and qs = "[]"]
    onboarding_required_one_way [where c = toy
      and db = "fst (onboarding \<lparr>usuarios = [ana], registros = []\<rparr> 1 (Some ''Ana''))"
      and i = 1 and u = ana and n = "Some ''Ana''" and email_in = None and senha = None
      and salt = "[]" and db' = empty_db and m = UsuarioCriado
      and q = "ReqUpdateOnboarding 1"
      and qs = "[ReqRegister (Some ''b@x.com'') (Some ''p2'') ''s'', ReqOnboarding 1 None,
            ReqUpdateOnboarding 1, ReqLogin (Some ''a@x.com'') (Some ''p1'')]"]
  by (simp add: register_def usuario_by_email_def usuario_insert_def novo_usuario_def next_id_def
      empty_db_def toy_def ana_def onboarding_flag_def usuario_get_def onboarding_def
      usuario_update_def truthy_def)

text \<open>
  Claim C7. \<open>register\<close> with an email that a row of \<open>usuarios\<close> already has answers
  400 and leaves the database as it is. With a new email and a password it answers 201 and
  appends one row: the next key, the email, the hash of the password, the name
  \<open>User\<close>, no image, \<open>onboarding_required\<close> true; a 201 never comes about otherwise.
  Every request keeps the emails of the table pairwise distinct, so no run from the empty
  database has two accounts with one email.
\<close>

theorem register_unique_email:
  "(e \<in> set (map email (usuarios db)) \<longrightarrow>
      register c db (Some e) senha salt = (db, Resp 400 (Msg UserAlreadyExists)))
   \<and> (e \<notin> set (map email (usuarios db)) \<longrightarrow>
        register c db (Some e) (Some s) salt
          = (db\<lparr>usuarios := usuarios db
                 @ [\<lparr>u_id = next_id (map u_id (usuarios db)), email = e,
                      senha_hash = generate_password_hash c salt s, nome = Some ''User'',
                      imagem_url = None, imagem_public_id = None,
                      onboarding_required = True\<rparr>]\<rparr>,
             Resp 201 (Msg UsuarioCriado)))
   \<and> (register c db email_in senha salt = (db', Resp 201 (Msg m)) \<longrightarrow>
        (\<exists>e' s'. email_in = Some e' \<and> senha = Some s' \<and> e' \<notin> set (map email (usuarios db))
           \<and> db' = db\<lparr>usuarios := usuarios db
                 @ [\<lparr>u_id = next_id (map u_id (usuarios db)), email = e',
                      senha_hash = generate_password_hash c salt s', nome = Some ''User'',
                      imagem_url = None, imagem_public_id = None,
                      onboarding_required = True\<rparr>]\<rparr>))
   \<and> (distinct (map email (usuarios db)) \<longrightarrow>
        distinct (map email (usuarios (fst (handle c db q)))))
   \<and> distinct (map email (usuarios (run c empty_db qs)))"
proof (intro conjI impI)
  assume "e \<in> set (map email (usuarios db))"
  then have "usuario_by_email (usuarios db) (Some e) \<noteq> None"
    using usuario_by_email_None_iff [of "usuarios db" e] by simp
  then show "register c db (Some e) senha salt = (db, Resp 400 (Msg UserAlreadyExists))"
    by (rule register_conflict)
next
  assume "e \<notin> set (map email (usuarios db))"
  then have "usuario_by_email (usuarios db) (Some e) = None"
    using usuario_by_email_None_iff [of "usuarios db" e] by simp
  from register_fresh [OF this, of c s salt]
  show "register c db (Some e) (Some s) salt
          = (db\<lparr>usuarios := usuarios db
                 @ [\<lparr>u_id = next_id (map u_id (usuarios db)), email = e,
                      senha_hash = generate_password_hash c salt s, nome = Some ''User'',
                      imagem_url = None, imagem_public_id = None,
                      onboarding_required = True\<rparr>]\<rparr>,
             Resp 201 (Msg UsuarioCriado))"
    unfolding novo_usuario_def .
next
  assume "register c db email_in senha salt = (db', Resp 201 (Msg m))"
  from register_created [OF this]
  show "\<exists>e' s'. email_in = Some e' \<and> senha = Some s' \<and> e' \<notin> set (map email (usuarios db))
           \<and> db' = db\<lparr>usuarios := usuarios db
                 @ [\<lparr>u_id = next_id (map u_id (usuarios db)), email = e',
                      senha_hash = generate_password_hash c salt s', nome = Some ''User'',
                      imagem_url = None, imagem_public_id = None,
                      onboarding_required = True\<rparr>]\<rparr>"
    unfolding novo_usuario_def by blast
next
  assume "distinct (map email (usuarios db))"
  then show "distinct (map email (usuarios (fst (handle c db q))))"
    by (rule emails_step)
next
  have "distinct (map email (usuarios empty_db))" by (simp add: empty_db_def)
  then show "distinct (map email (usuarios (run c empty_db qs)))"
    by (rule emails_run)
qed

theorem register_unique_email_witness:
  "''a@x.com'' \<in> set (map email [ana])
   \<and> register toy \<lparr>usuarios = [ana], registros = []\<rparr> (Some ''a@x.com'') (Some ''other'') ''t''
       = (\<lparr>usuarios = [ana], registros = []\<rparr>, Resp 400 (Msg UserAlreadyExists))
   \<and> ''b@x.com'' \<notin> set (map email [ana])
   \<and> register toy \<lparr>usuarios = [ana], registros = []\<rparr> (Some ''b@x.com'') (Some ''p2'') ''t''
       = (\<lparr>usuarios = [ana, \<lparr>u_id = 2, email = ''b@x.com'', senha_hash = ''t$p2'',
                              nome = Some ''User'', imagem_url = None, imagem_public_id = None,
                              onboarding_required = True\<rparr>], registros = []\<rparr>,
          Resp 201 (Msg UsuarioCriado))
   \<and> distinct (map email [ana])"
proof -
  let ?db = "\<lparr>usuarios = [ana], registros = []\<rparr>"
  have a: "''a@x.com'' \<in> set (map email (usuarios ?db))" by (simp add: ana_def)
  have b: "''b@x.com'' \<notin> set (map email (usuarios ?db))" by (simp add: ana_def)
  have d: "distinct (map email (usuarios ?db))" by simp
  note t1 = register_unique_email [where c = toy and db = ?db and e = "''a@x.com''"
      and senha = "Some ''other''" and salt = "''t''"]
  note t2 = register_unique_email [where c = toy and db = ?db and e = "''b@x.com''"
      and s = "''p2''" and salt = "''t''"]
  have r1: "register toy ?db (Some ''a@x.com'') (Some ''other'') ''t''
              = (?db, Resp 400 (Msg UserAlreadyExists))"
    using t1 a by blast
  have r2: "register toy ?db (Some ''b@x.com'') (Some ''p2'') ''t''
              = (?db\<lparr>usuarios := usuarios ?db
                 @ [\<lparr>u_id = next_id (map u_id (usuarios ?db)), email = ''b@x.com'',
                      senha_hash = generate_password_hash toy ''t'' ''p2'', nome = Some ''User'',
                      imagem_url = None, imagem_public_id = None,
                      onboarding_required = True\<rparr>]\<rparr>,
             Resp 201 (Msg UsuarioCriado))"
    using t2 b by blast
  have n: "next_id (map u_id (usuarios ?db)) = 2" by (simp add: next_id_def ana_def)
  have g: "generate_password_hash toy ''t'' ''p2'' = ''t$p2''" by (simp add: toy_def)
  show ?thesis using a b d r1 r2 unfolding n g by simp
qed

section \<open>Login\<close>

lemma str_int_1: "str_int 1 = ''1''"
  by code_simp

lemma toy_contract: "check_password_hash toy (generate_password_hash toy salt pw) pw"
  by (simp add: toy_def)

lemma usuario_by_email_new:
  assumes "e \<notin> set (map email rows)"
  shows "usuario_by_email (rows @ [novo_usuario rows e h]) (Some e) = Some (novo_usuario rows e h)"
proof -
  have "find (\<lambda>u. email u = e) rows = None"
    using assms by (auto simp: find_None_iff)
  then show ?thesis
    by (simp add: usuario_by_email_def find_append_eq novo_usuario_def)
qed

lemma login_ok:
  assumes "usuario_by_email (usuarios db) e = Some u" "check_password_hash c (senha_hash u) pw"
  shows "login c db e (Some pw)
           = (db, Resp 200 (LoginBody (create_access_token c (str_int (u_id u)) 1) (u_id u)
                              (onboarding_required u)))"
  using assms by (simp add: login_def)

lemma login_unknown_email:
  "usuario_by_email (usuarios db) e = None \<Longrightarrow>
     login c db e s = (db, Resp 401 (Msg IncorrectUsernameOrPassword))"
  by (simp add: login_def)

lemma login_wrong_password:
  "usuario_by_email (usuarios db) e = Some u \<Longrightarrow> \<not> check_password_hash c (senha_hash u) pw \<Longrightarrow>
     login c db e (Some pw) = (db, Resp 401 (Msg IncorrectUsernameOrPassword))"
  by (simp add: login_def)

lemma login_later:
  assumes contract: "\<And>salt pw. check_password_hash c (generate_password_hash c salt pw) pw"
    and reg: "register c db (Some e) (Some pw) salt = (db', Resp 201 (Msg UsuarioCriado))"
  shows "\<exists>u. usuario_by_email (usuarios (run c db' qs)) (Some e) = Some u
           \<and> login c (run c db' qs) (Some e) (Some pw)
               = (run c db' qs,
                  Resp 200 (LoginBody
                    (create_access_token c (str_int (next_id (map u_id (usuarios db)))) 1)
                    (next_id (map u_id (usuarios db))) (onboarding_required u)))"
proof -
  let ?new = "novo_usuario (usuarios db) e (generate_password_hash c salt pw)"
  from register_created [OF reg] have fresh: "e \<notin> set (map email (usuarios db))"
    and db': "db' = db\<lparr>usuarios := usuarios db @ [?new]\<rparr>"
    by auto
  have "usuario_by_email (usuarios db') (Some e) = Some ?new"
    using usuario_by_email_new [OF fresh] db' by simp
  from cred_run [OF this, of c qs] obtain u where
    u: "usuario_by_email (usuarios (run c db' qs)) (Some e) = Some u"
      "u_id u = u_id ?new" "senha_hash u = senha_hash ?new"
    by blast
  have "check_password_hash c (senha_hash u) pw"
    using u(3) contract by (simp add: novo_usuario_def)
  from login_ok [OF u(1) this] u(1,2) show ?thesis
    by (simp add: novo_usuario_def)
qed

lemma login_fresh_account:
  assumes contract: "\<And>salt pw. check_password_hash c (generate_password_hash c salt pw) pw"
    and reg: "register c db (Some e) (Some pw) salt = (db', Resp 201 (Msg UsuarioCriado))"
  shows "login c db' (Some e) (Some pw)
               = (db',
                  Resp 200 (LoginBody
                    (create_access_token c (str_int (next_id (map u_id (usuarios db)))) 1)
                    (next_id (map u_id (usuarios db))) True))"
proof -
  let ?new = "novo_usuario (usuarios db) e (generate_password_hash c salt pw)"
  from register_created [OF reg] have fresh: "e \<notin> set (map email (usuarios db))"
    and db': "db' = db\<lparr>usuarios := usuarios db @ [?new]\<rparr>"
    by auto
  have f: "usuario_by_email (usuarios db') (Some e) = Some ?new"
    using usuario_by_email_new [OF fresh] db' by simp
  have "check_password_hash c (senha_hash ?new) pw"
    using contract by (simp add: novo_usuario_def)
  from login_ok [OF f this] show ?thesis
    by (simp add: novo_usuario_def)
qed

text \<open>
  Claim C8. Given that the verification accepts the hash the library made of the same
  password: after a \<open>register\<close> that answered 201, \<open>login\<close> with the same email and
  password answers 200 with the token issued for \<open>str\<close> of the account's key and one
  day, the key, and the onboarding flag (true right after the registration); the same
  holds after any further requests, with the flag the account then has. \<open>login\<close> with
  an email that no row has, or with a password that fails the verification against the
  stored hash, answers 401.
\<close>

theorem login_after_register:
  assumes "\<And>salt pw. check_password_hash c (generate_password_hash c salt pw) pw"
  shows "(register c db (Some e) (Some pw) salt = (db', Resp 201 (Msg UsuarioCriado)) \<longrightarrow>
            login c db' (Some e) (Some pw)
              = (db', Resp 200 (LoginBody
                    (create_access_token c (str_int (next_id (map u_id (usuarios db)))) 1)
                    (next_id (map u_id (usuarios db))) True))
            \<and> (\<exists>u. usuario_by_email (usuarios (run c db' qs)) (Some e) = Some u
                 \<and> login c (run c db' qs) (Some e) (Some pw)
                     = (run c db' qs, Resp 200 (LoginBody
                          (create_access_token c (str_int (next_id (map u_id (usuarios db)))) 1)
                          (next_id (map u_id (usuarios db))) (onboarding_required u)))))
         \<and> (usuario_by_email (usuarios db0) e0 = None \<longrightarrow>
              login c db0 e0 s0 = (db0, Resp 401 (Msg IncorrectUsernameOrPassword)))
         \<and> (usuario_by_email (usuarios db0) e0 = Some u0
              \<and> \<not> check_password_hash c (senha_hash u0) p0 \<longrightarrow>
              login c db0 e0 (Some p0) = (db0, Resp 401 (Msg IncorrectUsernameOrPassword)))"
  using login_fresh_account [OF assms, of db e pw salt db']
    login_later [OF assms, of db e pw salt db' qs]
    login_unknown_email [of db0 e0 c s0]
    login_wrong_password [of db0 e0 u0 c p0]
  by blast

theorem login_after_register_witness:
  "(\<forall>salt pw. check_password_hash toy (generate_password_hash toy salt pw) pw)
   \<and> register toy empty_db (Some ''a@x.com'') (Some ''p1'') ''s''
       = (\<lparr>usuarios = [ana\<lparr>senha_hash := ''s$p1'', imagem_url := None, imagem_public_id := None\<rparr>],
           registros = []\<rparr>, Resp 201 (Msg UsuarioCriado))
   \<and> login toy \<lparr>usuarios = [ana\<lparr>senha_hash := ''s$p1'', imagem_url := None, imagem_public_id := None\<rparr>],
           registros = []\<rparr> (Some ''a@x.com'') (Some ''p1'')
       = (\<lparr>usuarios = [ana\<lparr>senha_hash := ''s$p1'', imagem_url := None, imagem_public_id := None\<rparr>],
           registros = []\<rparr>, Resp 200 (LoginBody ''jwt:1:1'' 1 True))
   \<and> \<not> check_password_hash toy ''s$p1'' ''zz''
   \<and> snd (login toy \<lparr>usuarios = [ana\<lparr>senha_hash := ''s$p1''\<rparr>], registros = []\<rparr>
              (Some ''a@x.com'') (Some ''zz''))
       = Resp 401 (Msg IncorrectUsernameOrPassword)
   \<and> usuario_by_email [] (Some ''a@x.com'') = None
   \<and> snd (login toy empty_db (Some ''a@x.com'') (Some ''p1''))
       = Resp 401 (Msg IncorrectUsernameOrPassword)"
proof -
  let ?db1 = "\<lparr>usuarios = [ana\<lparr>senha_hash := ''s$p1'', imagem_url := None, imagem_public_id := None\<rparr>],
           registros = []\<rparr>"
  let ?db2 = "\<lparr>usuarios = [ana\<lparr>senha_hash := ''s$p1''\<rparr>], registros = []\<rparr>"
  have c: "\<And>salt pw. check_password_hash toy (generate_password_hash toy salt pw) pw"
    by (rule toy_contract)
  have reg: "register toy empty_db (Some ''a@x.com'') (Some ''p1'') ''s''
               = (?db1, Resp 201 (Msg UsuarioCriado))"
    by (simp add: register_def usuario_by_email_def usuario_insert_def novo_usuario_def
        next_id_def empty_db_def toy_def ana_def)
  have n: "next_id (map u_id (usuarios empty_db)) = 1"
    by (simp add: next_id_def empty_db_def)
  have tok: "create_access_token toy (str_int 1) 1 = ''jwt:1:1''"
    by (simp add: toy_def str_int_1)
  have w: "\<not> check_password_hash toy ''s$p1'' ''zz''" by (simp add: toy_def)
  have u2: "usuario_by_email (usuarios ?db2) (Some ''a@x.com'') = Some (ana\<lparr>senha_hash := ''s$p1''\<rparr>)"
    by (simp add: usuario_by_email_def ana_def)
  have u0: "usuario_by_email (usuarios empty_db) (Some ''a@x.com'') = None"
    by (simp add: usuario_by_email_def empty_db_def)
  note t = login_after_register [OF c, where db = empty_db and e = "''a@x.com''" and pw = "''p1''"
      and salt = "''s''" and db' = ?db1 and qs = "[]"]
  have l1: "login toy ?db1 (Some ''a@x.com'') (Some ''p1'')
              = (?db1, Resp 200 (LoginBody ''jwt:1:1'' 1 True))"
    using t [of empty_db None None ana "[]"] reg unfolding n tok by blast
  have l2: "login toy ?db2 (Some ''a@x.com'') (Some ''zz'')
              = (?db2, Resp 401 (Msg IncorrectUsernameOrPassword))"
    using t [of ?db2 "Some ''a@x.com''" None "ana\<lparr>senha_hash := ''s$p1''\<rparr>" "''zz''"] u2 w
    by simp
  have l3: "login toy empty_db (Some ''a@x.com'') (Some ''p1'')
              = (empty_db, Resp 401 (Msg IncorrectUsernameOrPassword))"
    using t [of empty_db "Some ''a@x.com''" "Some ''p1''" ana "[]"] u0 by blast
  show ?thesis using c reg l1 l2 l3 w u0 by (simp add: empty_db_def)
qed

section \<open>The retention step\<close>

lemma fold_registro_delete:
  "fold registro_delete ds rows = filter (\<lambda>x. r_id x \<notin> r_id ` set ds) rows"
proof (induction ds arbitrary: rows)
  case Nil
  then show ?case by simp
next
  case (Cons d ds)
  have "fold registro_delete (d # ds) rows = fold registro_delete ds (registro_delete d rows)"
    by simp
  also have "\<dots> = filter (\<lambda>x. r_id x \<notin> r_id ` set ds) (filter (\<lambda>x. r_id x \<noteq> r_id d) rows)"
    by (simp add: Cons.IH registro_delete_def)
  also have "\<dots> = filter (\<lambda>x. r_id x \<notin> r_id ` set (d # ds)) rows"
    by (auto intro: filter_cong)
  finally show ?case .
qed

lemma sort_key_snoc_least:
  "\<forall>x \<in> set xs. f y < f x \<Longrightarrow> sort_key f (xs @ [y]) = y # sort_key f xs"
  by (induction xs) auto

lemma sort_key_desc_rev:
  "sorted_wrt (<) (map r_id xs) \<Longrightarrow> sort_key (\<lambda>r. - r_id r) xs = rev xs"
proof (induction xs rule: rev_induct)
  case Nil
  then show ?case by simp
next
  case (snoc x xs)
  from snoc.prems have s: "sorted_wrt (<) (map r_id xs)" and lt: "\<forall>y \<in> set xs. r_id y < r_id x"
    by (auto simp: sorted_wrt_append)
  from lt have "\<forall>y \<in> set xs. - r_id x < - r_id y" by simp
  then have "sort_key (\<lambda>r. - r_id r) (xs @ [x]) = x # sort_key (\<lambda>r. - r_id r) xs"
    by (rule sort_key_snoc_least)
  with snoc.IH [OF s] show ?case by simp
qed

lemma filter_not_in_take:
  assumes "distinct (map f xs)"
  shows "filter (\<lambda>x. f x \<notin> f ` set (take k xs)) xs = drop k xs"
proof -
  have d: "distinct (map f (take k xs @ drop k xs))" using assms by simp
  then have disj: "f ` set (take k xs) \<inter> f ` set (drop k xs) = {}"
    by (simp del: append_take_drop_id)
  have "filter (\<lambda>x. f x \<notin> f ` set (take k xs)) (take k xs @ drop k xs)
          = filter (\<lambda>x. f x \<notin> f ` set (take k xs)) (take k xs)
            @ filter (\<lambda>x. f x \<notin> f ` set (take k xs)) (drop k xs)"
    by (simp del: append_take_drop_id)
  moreover have "filter (\<lambda>x. f x \<notin> f ` set (take k xs)) (take k xs) = []"
    by (auto simp: filter_empty_conv)
  moreover have "filter (\<lambda>x. f x \<notin> f ` set (take k xs)) (drop k xs) = drop k xs"
    using disj by (auto simp: filter_id_conv)
  ultimately show ?thesis by simp
qed

lemma registros_wf_distinct: "registros_wf rows \<Longrightarrow> distinct (map r_id rows)"
  by (simp add: registros_wf_def strict_sorted_iff)

lemma registros_wf_filter: "registros_wf rows \<Longrightarrow> registros_wf (filter P rows)"
  by (simp add: registros_wf_def sorted_wrt_map sorted_wrt_filter)

lemma registros_wf_snoc:
  assumes "registros_wf rows" "r_id y = next_id (map r_id rows)"
  shows "registros_wf (rows @ [y])"
  using assms next_id_fresh [of _ "map r_id rows"]
  by (auto simp: registros_wf_def sorted_wrt_append)

lemma podar_eq:
  assumes "registros_wf rows"
  shows "podar i rows
           = filter (\<lambda>x. r_id x \<notin> r_id ` set (take (length (registros_de i rows) - 11)
                                                    (registros_de i rows))) rows"
proof -
  let ?L = "registros_de i rows"
  have wfL: "sorted_wrt (<) (map r_id ?L)"
    using registros_wf_filter [OF assms] by (simp add: registros_wf_def registros_de_def)
  have s: "sort_key (\<lambda>r. - r_id r) ?L = rev ?L"
    by (rule sort_key_desc_rev [OF wfL])
  show ?thesis
  proof (cases "length ?L > 11")
    case True
    then have "podar i rows = fold registro_delete (drop 11 (rev ?L)) rows"
      by (simp add: podar_def s Let_def)
    also have "\<dots> = filter (\<lambda>x. r_id x \<notin> r_id ` set (drop 11 (rev ?L))) rows"
      by (rule fold_registro_delete)
    also have "drop 11 (rev ?L) = rev (take (length ?L - 11) ?L)"
      by (rule drop_rev)
    finally show ?thesis by simp
  next
    case False
    then have "podar i rows = rows" by (simp add: podar_def s Let_def)
    moreover have "length ?L - 11 = 0" using False by simp
    ultimately show ?thesis by simp
  qed
qed

lemma podar_wf: "registros_wf rows \<Longrightarrow> registros_wf (podar i rows)"
  by (simp add: podar_eq registros_wf_filter)

lemma podar_own:
  assumes "registros_wf rows"
  shows "registros_de i (podar i rows)
           = drop (length (registros_de i rows) - 11) (registros_de i rows)"
proof -
  let ?L = "registros_de i rows"
  let ?k = "length ?L - 11"
  have dL: "distinct (map r_id ?L)"
    using registros_wf_distinct [OF registros_wf_filter [OF assms]]
    by (simp add: registros_de_def)
  have "registros_de i (podar i rows)
          = filter (\<lambda>x. r_id x \<notin> r_id ` set (take ?k ?L)) ?L"
    unfolding podar_eq [OF assms] registros_de_def
    by (simp add: conj_commute)
  also have "\<dots> = drop ?k ?L" by (rule filter_not_in_take [OF dL])
  finally show ?thesis .
qed

lemma podar_other:
  assumes "registros_wf rows" "j \<noteq> i"
  shows "registros_de j (podar i rows) = registros_de j rows"
proof -
  let ?L = "registros_de i rows"
  let ?k = "length ?L - 11"
  have inj: "inj_on r_id (set rows)"
    using registros_wf_distinct [OF assms(1)] by (simp add: distinct_map)
  have keep: "r_id x \<notin> r_id ` set (take ?k ?L)" if x: "x \<in> set rows" "id_usuario x = j" for x
  proof
    assume "r_id x \<in> r_id ` set (take ?k ?L)"
    then obtain y where y: "y \<in> set (take ?k ?L)" "r_id x = r_id y" by auto
    from y(1) have "y \<in> set ?L" by (rule in_set_takeD)
    then have y': "y \<in> set rows" "id_usuario y = i" by (auto simp: registros_de_def)
    from inj x(1) y'(1) y(2) have "x = y" by (auto dest: inj_onD)
    with x(2) y'(2) assms(2) show False by simp
  qed
  have "registros_de j (podar i rows)
          = filter (\<lambda>x. id_usuario x = j \<and> r_id x \<notin> r_id ` set (take ?k ?L)) rows"
    unfolding podar_eq [OF assms(1)] registros_de_def by (simp add: conj_commute)
  also have "\<dots> = filter (\<lambda>x. id_usuario x = j) rows"
    using keep by (auto intro: filter_cong)
  finally show ?thesis by (simp add: registros_de_def)
qed

lemma podar_subset: "set (podar i rows) \<subseteq> set rows"
  by (auto simp: podar_def Let_def fold_registro_delete)

lemma podar_filter: "\<exists>Q. podar i rows = filter Q rows"
proof (cases "length (sort_key (\<lambda>r. - r_id r) (registros_de i rows)) > 11")
  case True
  then have "podar i rows = filter (\<lambda>x. r_id x \<notin> r_id ` set (drop 11
      (sort_key (\<lambda>r. - r_id r) (registros_de i rows)))) rows"
    by (simp add: podar_def Let_def fold_registro_delete)
  then show ?thesis by blast
next
  case False
  then have "podar i rows = filter (\<lambda>x. True) rows"
    by (simp add: podar_def Let_def)
  then show ?thesis by blast
qed

section \<open>Recording today: retention\<close>

lemma retention_ok_iff:
  "retention_ok rows = (\<forall>u. length (registros_de u rows) \<le> 11)"
proof
  assume "retention_ok rows"
  show "\<forall>u. length (registros_de u rows) \<le> 11"
  proof
    fix u
    show "length (registros_de u rows) \<le> 11"
    proof (cases "registros_de u rows")
      case Nil
      then show ?thesis by simp
    next
      case (Cons r rs)
      then have "r \<in> set (registros_de u rows)" by simp
      then have "r \<in> set rows" "id_usuario r = u" by (auto simp: registros_de_def)
      with \<open>retention_ok rows\<close> show ?thesis by (auto simp: retention_ok_def)
    qed
  qed
next
  assume "\<forall>u. length (registros_de u rows) \<le> 11"
  then show "retention_ok rows" by (simp add: retention_ok_def)
qed

lemma registrar_dados_cases:
  "registrar_dados db hoje i h c d s =
     (if \<exists>r \<in> set (registros db). id_usuario r = i \<and> data r = hoje
        then (db, Resp 400 (Msg JaRegistrouHoje))
      else if h = None \<or> c = None \<or> s = None then (db, Unhandled IntegrityError)
      else (db\<lparr>registros := podar i (registros db
                   @ [novo_registro (registros db) hoje (the h) (the c) d (the s) i])\<rparr>,
            Resp 201 (Msg RegistroSalvo)))"
  unfolding registrar_dados_def registro_first_iff
  by (cases h; cases c; cases s) (simp_all add: registro_insert_def)

lemma registros_de_snoc:
  "registros_de i (rows @ [y]) = (if id_usuario y = i then registros_de i rows @ [y]
                                  else registros_de i rows)"
  by (simp add: registros_de_def)

lemma registrar_dados_created:
  assumes wf: "registros_wf (registros db)"
    and ok: "registrar_dados db hoje i h c d s = (db', Resp 201 (Msg RegistroSalvo))"
  shows "\<exists>hm cs hs new. h = Some hm \<and> c = Some cs \<and> s = Some hs
           \<and> new = novo_registro (registros db) hoje hm cs d hs i
           \<and> (\<forall>x \<in> set (registros db). r_id x < r_id new)
           \<and> registros_de i (registros db')
               = drop (length (registros_de i (registros db) @ [new]) - 11)
                   (registros_de i (registros db) @ [new])
           \<and> (\<forall>u. u \<noteq> i \<longrightarrow> registros_de u (registros db') = registros_de u (registros db))
           \<and> registros_wf (registros db')"
proof -
  let ?rows = "registros db"
  from ok obtain hm cs hs where given: "h = Some hm" "c = Some cs" "s = Some hs"
    unfolding registrar_dados_cases by (auto split: if_splits)
  let ?new = "novo_registro ?rows hoje hm cs d hs i"
  from ok given have db': "db' = db\<lparr>registros := podar i (?rows @ [?new])\<rparr>"
    unfolding registrar_dados_cases by (auto split: if_splits)
  have id: "r_id ?new = next_id (map r_id ?rows)" "id_usuario ?new = i"
    by (simp_all add: novo_registro_def)
  have wf': "registros_wf (?rows @ [?new])"
    by (rule registros_wf_snoc [OF wf id(1)])
  have lt: "\<forall>x \<in> set ?rows. r_id x < r_id ?new"
    using next_id_fresh [of _ "map r_id ?rows"] id(1) by auto
  have L: "registros_de i (?rows @ [?new]) = registros_de i ?rows @ [?new]"
    by (simp add: registros_de_snoc id(2))
  have own: "registros_de i (registros db')
               = drop (length (registros_de i ?rows @ [?new]) - 11) (registros_de i ?rows @ [?new])"
    using podar_own [OF wf', of i] db' L by simp
  have other: "\<forall>u. u \<noteq> i \<longrightarrow> registros_de u (registros db') = registros_de u ?rows"
  proof (intro allI impI)
    fix u assume "u \<noteq> i"
    from podar_other [OF wf' this] show "registros_de u (registros db') = registros_de u ?rows"
      using db' id(2) \<open>u \<noteq> i\<close> by (simp add: registros_de_snoc)
  qed
  have "registros_wf (registros db')" using podar_wf [OF wf'] db' by simp
  with given lt own other show ?thesis by blast
qed

lemma registrar_dados_unchanged:
  assumes "registrar_dados db hoje i h c d s = (db', r)" "r \<noteq> Resp 201 (Msg RegistroSalvo)"
  shows "db' = db"
  using assms unfolding registrar_dados_cases by (auto split: if_splits)

lemma registrar_dados_inv:
  assumes wf: "registros_wf (registros db)" and ret: "retention_ok (registros db)"
    and run: "registrar_dados db hoje i h c d s = (db', r)"
  shows "registros_wf (registros db') \<and> retention_ok (registros db')"
proof (cases "r = Resp 201 (Msg RegistroSalvo)")
  case False
  from registrar_dados_unchanged [OF run False] wf ret show ?thesis by simp
next
  case True
  from registrar_dados_created [OF wf run [unfolded True]] obtain new where
    own: "registros_de i (registros db')
               = drop (length (registros_de i (registros db) @ [new]) - 11)
                   (registros_de i (registros db) @ [new])"
    and other: "\<forall>u. u \<noteq> i \<longrightarrow> registros_de u (registros db') = registros_de u (registros db)"
    and wf': "registros_wf (registros db')"
    by blast
  have "length (registros_de u (registros db')) \<le> 11" for u
  proof (cases "u = i")
    case True
    then show ?thesis by (simp add: own)
  next
    case False
    with other ret show ?thesis by (simp add: retention_ok_iff)
  qed
  with wf' show ?thesis by (simp add: retention_ok_iff)
qed

lemma handle_registros:
  "registros (fst (handle c db q)) = registros db
   \<or> (\<exists>d i h cs ds hs. q = ReqRegistro d i h cs ds hs)"
  by (cases q)
     (simp_all add: register_def login_def onboarding_def update_onboarding_def
        obter_registros_def check_onboarding_def get_usuario_def upload_image_def
        ja_registrou_hoje_def Let_def split: option.splits sum.splits upload_result.splits)

lemma retention_step:
  assumes "registros_wf (registros db)" "retention_ok (registros db)"
  shows "registros_wf (registros (fst (handle c db q)))
         \<and> retention_ok (registros (fst (handle c db q)))"
proof (cases "\<exists>d i h cs ds hs. q = ReqRegistro d i h cs ds hs")
  case True
  then obtain d i h cs ds hs where q: "q = ReqRegistro d i h cs ds hs" by blast
  have "registrar_dados db d i h cs ds hs
          = (fst (registrar_dados db d i h cs ds hs), snd (registrar_dados db d i h cs ds hs))"
    by simp
  from registrar_dados_inv [OF assms this] show ?thesis using q by simp
next
  case False
  with handle_registros [of c db q] assms show ?thesis by simp
qed

lemma retention_run:
  "registros_wf (registros db) \<Longrightarrow> retention_ok (registros db) \<Longrightarrow>
     registros_wf (registros (run c db qs)) \<and> retention_ok (registros (run c db qs))"
proof (induction qs arbitrary: db)
  case Nil
  then show ?case by simp
next
  case (Cons q qs)
  from retention_step [OF Cons.prems, of c q] Cons.IH show ?case by simp
qed

lemma retention_from_empty:
  "registros_wf (registros (run c empty_db qs)) \<and> retention_ok (registros (run c empty_db qs))"
  by (rule retention_run) (simp_all add: empty_db_def registros_wf_def retention_ok_def)

text \<open>
  Claim C1. Let the rows of the table stand in increasing order of their keys and let no
  account have more than eleven rows; every run from the empty database is such a state.
  After \<open>registrar_dados\<close>, whatever it answers, every account has at most eleven rows
  and the table is again in such a state. When it answers 201, the new row has a key
  above every key of the table, the rows of the account are the last eleven of its former
  rows followed by the new row (all of them when there are no more than eleven), and the
  rows of every other account are as before. The order is that of the keys, so the rows
  that go are those of the smallest keys, whatever their dates.
\<close>

theorem registrar_dados_retention:
  "(registros_wf (registros db) \<and> retention_ok (registros db)
      \<and> registrar_dados db hoje i h c d s = (db', r) \<longrightarrow>
        (\<forall>u. length (registros_de u (registros db')) \<le> 11)
        \<and> registros_wf (registros db') \<and> retention_ok (registros db')
        \<and> (r = Resp 201 (Msg RegistroSalvo) \<longrightarrow>
             (\<exists>hm cs hs new. h = Some hm \<and> c = Some cs \<and> s = Some hs
                \<and> new = novo_registro (registros db) hoje hm cs d hs i
                \<and> (\<forall>x \<in> set (registros db). r_id x < r_id new)
                \<and> registros_de i (registros db')
                    = drop (length (registros_de i (registros db) @ [new]) - 11)
                        (registros_de i (registros db) @ [new])
                \<and> (\<forall>u. u \<noteq> i \<longrightarrow>
                      registros_de u (registros db') = registros_de u (registros db)))))
   \<and> registros_wf (registros (run cb empty_db qs))
   \<and> retention_ok (registros (run cb empty_db qs))"
proof (intro conjI impI)
  assume a: "registros_wf (registros db) \<and> retention_ok (registros db)
      \<and> registrar_dados db hoje i h c d s = (db', r)"
  then have wf: "registros_wf (registros db)" and ret: "retention_ok (registros db)"
    and run: "registrar_dados db hoje i h c d s = (db', r)"
    by simp_all
  from registrar_dados_inv [OF wf ret run]
  show "\<forall>u. length (registros_de u (registros db')) \<le> 11"
    and "registros_wf (registros db')" and "retention_ok (registros db')"
    by (simp_all add: retention_ok_iff)
  assume r: "r = Resp 201 (Msg RegistroSalvo)"
  from registrar_dados_created [OF wf run [unfolded r]]
  show "\<exists>hm cs hs new. h = Some hm \<and> c = Some cs \<and> s = Some hs
                \<and> new = novo_registro (registros db) hoje hm cs d hs i
                \<and> (\<forall>x \<in> set (registros db). r_id x < r_id new)
                \<and> registros_de i (registros db')
                    = drop (length (registros_de i (registros db) @ [new]) - 11)
                        (registros_de i (registros db) @ [new])
                \<and> (\<forall>u. u \<noteq> i \<longrightarrow>
                      registros_de u (registros db') = registros_de u (registros db))"
    by blast
next
  show "registros_wf (registros (run cb empty_db qs))"
    and "retention_ok (registros (run cb empty_db qs))"
    using retention_from_empty [of cb qs] by simp_all
qed

lemma onze_wf: "registros_wf onze"
  by (simp add: registros_wf_def onze_def reg_def)

lemma onze_ret: "retention_ok onze"
  by (simp add: retention_ok_def onze_def reg_def registros_de_def)

theorem registrar_dados_retention_witness:
  "registros_wf onze \<and> retention_ok onze
   \<and> snd (registrar_dados \<lparr>usuarios = [ana], registros = onze\<rparr> 60 1
            (Some ''ok'') (Some ''calm'') None (Some ''7'')) = Resp 201 (Msg RegistroSalvo)
   \<and> registros_de 1 onze
       = [reg 1 50 1, reg 2 10 1, reg 4 11 1, reg 5 12 1, reg 6 13 1, reg 7 14 1, reg 8 15 1,
          reg 9 16 1, reg 10 17 1, reg 11 18 1, reg 12 19 1]
   \<and> registros_de 1 (registros (fst (registrar_dados \<lparr>usuarios = [ana], registros = onze\<rparr> 60 1
            (Some ''ok'') (Some ''calm'') None (Some ''7''))))
       = [reg 2 10 1, reg 4 11 1, reg 5 12 1, reg 6 13 1, reg 7 14 1, reg 8 15 1,
          reg 9 16 1, reg 10 17 1, reg 11 18 1, reg 12 19 1, reg 13 60 1]
   \<and> registros_de 2 (registros (fst (registrar_dados \<lparr>usuarios = [ana], registros = onze\<rparr> 60 1
            (Some ''ok'') (Some ''calm'') None (Some ''7''))))
       = [reg 3 55 2]"
proof -
  let ?db = "\<lparr>usuarios = [ana], registros = onze\<rparr>"
  let ?res = "registrar_dados ?db 60 1 (Some ''ok'') (Some ''calm'') None (Some ''7'')"
  have wf: "registros_wf (registros ?db)" using onze_wf by simp
  have ret: "retention_ok (registros ?db)" using onze_ret by simp
  have no: "\<not> (\<exists>r \<in> set (registros ?db). id_usuario r = 1 \<and> data r = 60)"
    by (simp add: onze_def reg_def)
  have r: "snd ?res = Resp 201 (Msg RegistroSalvo)"
    unfolding registrar_dados_cases using no by simp
  have run: "?res = (fst ?res, snd ?res)" by simp
  have L: "registros_de 1 onze
       = [reg 1 50 1, reg 2 10 1, reg 4 11 1, reg 5 12 1, reg 6 13 1, reg 7 14 1, reg 8 15 1,
          reg 9 16 1, reg 10 17 1, reg 11 18 1, reg 12 19 1]"
    by (simp add: registros_de_def onze_def reg_def)
  have L2: "registros_de 2 onze = [reg 3 55 2]"
    by (simp add: registros_de_def onze_def reg_def)
  have n: "novo_registro onze 60 ''ok'' ''calm'' None ''7'' 1 = reg 13 60 1"
    by (simp add: novo_registro_def next_id_def onze_def reg_def)
  from registrar_dados_retention [where db = ?db and hoje = 60 and i = 1 and h = "Some ''ok''"
      and c = "Some ''calm''" and d = None and s = "Some ''7''" and db' = "fst ?res"
      and r = "snd ?res" and cb = toy and qs = "[]"] wf ret run r
  have "\<exists>hm cs hs new. Some ''ok'' = Some hm \<and> Some ''calm'' = Some cs \<and> Some ''7'' = Some hs
                \<and> new = novo_registro (registros ?db) 60 hm cs None hs 1
                \<and> (\<forall>x \<in> set (registros ?db). r_id x < r_id new)
                \<and> registros_de 1 (registros (fst ?res))
                    = drop (length (registros_de 1 (registros ?db) @ [new]) - 11)
                        (registros_de 1 (registros ?db) @ [new])
                \<and> (\<forall>u. u \<noteq> 1 \<longrightarrow>
                      registros_de u (registros (fst ?res)) = registros_de u (registros ?db))"
    by blast
  then have own: "registros_de 1 (registros (fst ?res))
          = drop (length (registros_de 1 onze @ [reg 13 60 1]) - 11)
              (registros_de 1 onze @ [reg 13 60 1])"
    and other: "registros_de 2 (registros (fst ?res)) = registros_de 2 onze"
    using n by auto
  from own have own': "registros_de 1 (registros (fst ?res))
       = [reg 2 10 1, reg 4 11 1, reg 5 12 1, reg 6 13 1, reg 7 14 1, reg 8 15 1,
          reg 9 16 1, reg 10 17 1, reg 11 18 1, reg 12 19 1, reg 13 60 1]"
    unfolding L by simp
  show ?thesis using onze_wf onze_ret r L own' other L2 by simp
qed

section \<open>Recording today: the same-day guard\<close>

lemma podar_keeps_new:
  assumes lt: "\<forall>x \<in> set rows. r_id x < r_id y" and own: "id_usuario y = i"
  shows "y \<in> set (podar i (rows @ [y]))"
proof -
  let ?L0 = "registros_de i rows"
  let ?S = "sort_key (\<lambda>r. - r_id r) ?L0"
  have L: "registros_de i (rows @ [y]) = ?L0 @ [y]"
    by (simp add: registros_de_snoc own)
  have "\<forall>x \<in> set ?L0. - r_id y < - r_id x"
    using lt by (simp add: registros_de_def)
  then have s: "sort_key (\<lambda>r. - r_id r) (?L0 @ [y]) = y # ?S"
    by (rule sort_key_snoc_least)
  have "set (drop 10 ?S) \<subseteq> set rows"
    using set_drop_subset [of 10 ?S] by (auto simp: registros_de_def)
  then have notin: "r_id y \<notin> r_id ` set (drop 10 ?S)"
    using lt by fastforce
  show ?thesis
  proof (cases "length (y # ?S) > 11")
    case True
    then have "podar i (rows @ [y])
                 = filter (\<lambda>x. r_id x \<notin> r_id ` set (drop 11 (y # ?S))) (rows @ [y])"
      by (simp add: podar_def L s Let_def fold_registro_delete del: drop_Cons_numeral)
    moreover have "drop 11 (y # ?S) = drop 10 ?S" by simp
    ultimately show ?thesis using notin by simp
  next
    case False
    then have "podar i (rows @ [y]) = rows @ [y]"
      by (simp add: podar_def L s Let_def)
    then show ?thesis by simp
  qed
qed

lemma um_por_dia_snoc:
  assumes "um_por_dia rows" "\<not> (\<exists>r \<in> set rows. id_usuario r = id_usuario y \<and> data r = data y)"
  shows "um_por_dia (rows @ [y])"
  using assms by (auto simp: um_por_dia_def)

lemma um_por_dia_podar: "um_por_dia rows \<Longrightarrow> um_por_dia (podar i rows)"
proof -
  assume u: "um_por_dia rows"
  obtain Q where "podar i rows = filter Q rows" using podar_filter by blast
  with u show ?thesis by (simp add: um_por_dia_def distinct_map_filter)
qed

lemma registrar_dados_um_por_dia:
  assumes "um_por_dia (registros db)"
  shows "um_por_dia (registros (fst (registrar_dados db hoje i h c d s)))"
proof (cases "(\<exists>r \<in> set (registros db). id_usuario r = i \<and> data r = hoje)
                \<or> h = None \<or> c = None \<or> s = None")
  case True
  then have "fst (registrar_dados db hoje i h c d s) = db"
    unfolding registrar_dados_cases by auto
  with assms show ?thesis by simp
next
  case False
  let ?new = "novo_registro (registros db) hoje (the h) (the c) d (the s) i"
  from False have no: "\<not> (\<exists>r \<in> set (registros db). id_usuario r = i \<and> data r = hoje)"
    and g: "\<not> (h = None \<or> c = None \<or> s = None)"
    by blast+
  have "registrar_dados db hoje i h c d s
          = (db\<lparr>registros := podar i (registros db @ [?new])\<rparr>, Resp 201 (Msg RegistroSalvo))"
    unfolding registrar_dados_cases using no g by (simp only: if_False)
  then have "registros (fst (registrar_dados db hoje i h c d s))
                     = podar i (registros db @ [?new])"
    by simp
  moreover have "um_por_dia (registros db @ [?new])"
    using no assms by (intro um_por_dia_snoc) (simp_all add: novo_registro_def)
  ultimately show ?thesis by (simp add: um_por_dia_podar)
qed

lemma um_por_dia_step:
  assumes "um_por_dia (registros db)"
  shows "um_por_dia (registros (fst (handle cb db q)))"
proof (cases "\<exists>d i h cs ds hs. q = ReqRegistro d i h cs ds hs")
  case True
  then obtain d i h cs ds hs where q: "q = ReqRegistro d i h cs ds hs" by blast
  from registrar_dados_um_por_dia [OF assms, of d i h cs ds hs] show ?thesis using q by simp
next
  case False
  with handle_registros [of cb db q] assms show ?thesis by simp
qed

lemma um_por_dia_run:
  "um_por_dia (registros db) \<Longrightarrow> um_por_dia (registros (run cb db qs))"
  by (induction qs arbitrary: db) (simp_all add: um_por_dia_step)

lemma registrar_dados_new_row:
  assumes no: "\<not> (\<exists>r \<in> set (registros db). id_usuario r = i \<and> data r = hoje)"
  shows "registrar_dados db hoje i (Some hm) (Some cs) d (Some hs)
           = (db\<lparr>registros := podar i (registros db
                   @ [novo_registro (registros db) hoje hm cs d hs i])\<rparr>,
              Resp 201 (Msg RegistroSalvo))"
    and "novo_registro (registros db) hoje hm cs d hs i
           \<in> set (registros (fst (registrar_dados db hoje i (Some hm) (Some cs) d (Some hs))))"
    and "\<forall>x \<in> set (registros (fst (registrar_dados db hoje i (Some hm) (Some cs) d (Some hs)))).
           id_usuario x = i \<and> data x = hoje \<longrightarrow> x = novo_registro (registros db) hoje hm cs d hs i"
proof -
  let ?new = "novo_registro (registros db) hoje hm cs d hs i"
  show eq: "registrar_dados db hoje i (Some hm) (Some cs) d (Some hs)
           = (db\<lparr>registros := podar i (registros db @ [?new])\<rparr>, Resp 201 (Msg RegistroSalvo))"
    unfolding registrar_dados_cases using no by simp
  have lt: "\<forall>x \<in> set (registros db). r_id x < r_id ?new"
    using next_id_fresh [of _ "map r_id (registros db)"] by (auto simp: novo_registro_def)
  have "?new \<in> set (podar i (registros db @ [?new]))"
    by (rule podar_keeps_new [OF lt]) (simp add: novo_registro_def)
  then show "?new \<in> set (registros (fst (registrar_dados db hoje i (Some hm) (Some cs) d (Some hs))))"
    by (simp add: eq)
  have "set (podar i (registros db @ [?new])) \<subseteq> set (registros db @ [?new])"
    by (rule podar_subset)
  then show "\<forall>x \<in> set (registros (fst (registrar_dados db hoje i (Some hm) (Some cs) d (Some hs)))).
           id_usuario x = i \<and> data x = hoje \<longrightarrow> x = ?new"
    using no by (auto simp: eq)
qed

text \<open>
  Claim C4. \<open>registrar_dados\<close> answers 400 (already recorded today) exactly when the
  table has a row of the account with today's date, whatever the submitted fields are,
  and then leaves the database as it is. Otherwise, given \<open>humor\<close>, \<open>como_se_sentiu\<close>
  and \<open>horas_sono\<close> (\<open>descricao\<close> is optional), it answers 201 and the table holds the
  new row of the account and today's date with these fields, and no other row of that
  account and date. Otherwise, with one of the three required fields missing, the store
  rejects the row and nothing changes.
\<close>

theorem registrar_dados_conflict_iff:
  "(snd (registrar_dados db hoje i h c d s) = Resp 400 (Msg JaRegistrouHoje))
     = (\<exists>r \<in> set (registros db). id_usuario r = i \<and> data r = hoje)
   \<and> ((\<exists>r \<in> set (registros db). id_usuario r = i \<and> data r = hoje) \<longrightarrow>
        registrar_dados db hoje i h c d s = (db, Resp 400 (Msg JaRegistrouHoje)))
   \<and> (\<not> (\<exists>r \<in> set (registros db). id_usuario r = i \<and> data r = hoje) \<longrightarrow>
        snd (registrar_dados db hoje i (Some hm) (Some cs) d (Some hs))
          = Resp 201 (Msg RegistroSalvo)
        \<and> usuarios (fst (registrar_dados db hoje i (Some hm) (Some cs) d (Some hs))) = usuarios db
        \<and> \<lparr>r_id = next_id (map r_id (registros db)), data = hoje, humor = hm,
            como_se_sentiu = cs, descricao = d, horas_sono = hs, id_usuario = i\<rparr>
            \<in> set (registros (fst (registrar_dados db hoje i (Some hm) (Some cs) d (Some hs))))
        \<and> (\<forall>x \<in> set (registros (fst (registrar_dados db hoje i (Some hm) (Some cs) d (Some hs)))).
              id_usuario x = i \<and> data x = hoje \<longrightarrow>
              x = \<lparr>r_id = next_id (map r_id (registros db)), data = hoje, humor = hm,
                    como_se_sentiu = cs, descricao = d, horas_sono = hs, id_usuario = i\<rparr>))
   \<and> (\<not> (\<exists>r \<in> set (registros db). id_usuario r = i \<and> data r = hoje)
        \<and> (h = None \<or> c = None \<or> s = None) \<longrightarrow>
        registrar_dados db hoje i h c d s = (db, Unhandled IntegrityError))"
proof (intro conjI impI)
  show "(snd (registrar_dados db hoje i h c d s) = Resp 400 (Msg JaRegistrouHoje))
     = (\<exists>r \<in> set (registros db). id_usuario r = i \<and> data r = hoje)"
    unfolding registrar_dados_cases by simp
next
  assume "\<exists>r \<in> set (registros db). id_usuario r = i \<and> data r = hoje"
  then show "registrar_dados db hoje i h c d s = (db, Resp 400 (Msg JaRegistrouHoje))"
    unfolding registrar_dados_cases by simp
next
  assume no: "\<not> (\<exists>r \<in> set (registros db). id_usuario r = i \<and> data r = hoje)"
  note n = registrar_dados_new_row [OF no, of hm cs d hs]
  show "snd (registrar_dados db hoje i (Some hm) (Some cs) d (Some hs))
          = Resp 201 (Msg RegistroSalvo)"
    and "usuarios (fst (registrar_dados db hoje i (Some hm) (Some cs) d (Some hs))) = usuarios db"
    by (simp_all add: n(1))
  show "\<lparr>r_id = next_id (map r_id (registros db)), data = hoje, humor = hm,
            como_se_sentiu = cs, descricao = d, horas_sono = hs, id_usuario = i\<rparr>
            \<in> set (registros (fst (registrar_dados db hoje i (Some hm) (Some cs) d (Some hs))))"
    using n(2) unfolding novo_registro_def .
  show "\<forall>x \<in> set (registros (fst (registrar_dados db hoje i (Some hm) (Some cs) d (Some hs)))).
              id_usuario x = i \<and> data x = hoje \<longrightarrow>
              x = \<lparr>r_id = next_id (map r_id (registros db)), data = hoje, humor = hm,
                    como_se_sentiu = cs, descricao = d, horas_sono = hs, id_usuario = i\<rparr>"
    using n(3) unfolding novo_registro_def .
next
  assume "\<not> (\<exists>r \<in> set (registros db). id_usuario r = i \<and> data r = hoje)
        \<and> (h = None \<or> c = None \<or> s = None)"
  then show "registrar_dados db hoje i h c d s = (db, Unhandled IntegrityError)"
    unfolding registrar_dados_cases by auto
qed

theorem registrar_dados_conflict_iff_witness:
  "(\<exists>r \<in> set [reg 1 50 1]. id_usuario r = 1 \<and> data r = 50)
   \<and> registrar_dados \<lparr>usuarios = [ana], registros = [reg 1 50 1]\<rparr> 50 1
        (Some ''sad'') None None (Some ''3'')
       = (\<lparr>usuarios = [ana], registros = [reg 1 50 1]\<rparr>, Resp 400 (Msg JaRegistrouHoje))
   \<and> \<not> (\<exists>r \<in> set [reg 1 50 1]. id_usuario r = 1 \<and> data r = 51)
   \<and> snd (registrar_dados \<lparr>usuarios = [ana], registros = [reg 1 50 1]\<rparr> 51 1
        (Some ''ok'') (Some ''calm'') None (Some ''7'')) = Resp 201 (Msg RegistroSalvo)
   \<and> reg 2 51 1 \<in> set (registros (fst (registrar_dados \<lparr>usuarios = [ana], registros = [reg 1 50 1]\<rparr> 51 1
        (Some ''ok'') (Some ''calm'') None (Some ''7''))))"
proof -
  let ?db = "\<lparr>usuarios = [ana], registros = [reg 1 50 1]\<rparr>"
  have y: "\<exists>r \<in> set (registros ?db). id_usuario r = 1 \<and> data r = 50" by (simp add: reg_def)
  have n: "\<not> (\<exists>r \<in> set (registros ?db). id_usuario r = 1 \<and> data r = 51)" by (simp add: reg_def)
  have k: "\<lparr>r_id = next_id (map r_id (registros ?db)), data = 51, humor = ''ok'',
            como_se_sentiu = ''calm'', descricao = None, horas_sono = ''7'', id_usuario = 1\<rparr>
           = reg 2 51 1"
    by (simp add: reg_def next_id_def)
  from registrar_dados_conflict_iff [where db = ?db and hoje = 50 and i = 1 and h = "Some ''sad''"
      and c = None and d = None and s = "Some ''3''"] y
  have a: "registrar_dados ?db 50 1 (Some ''sad'') None None (Some ''3'')
             = (?db, Resp 400 (Msg JaRegistrouHoje))"
    by blast
  from registrar_dados_conflict_iff [where db = ?db and hoje = 51 and i = 1 and hm = "''ok''"
      and cs = "''calm''" and d = None and hs = "''7''"] n
  have b: "snd (registrar_dados ?db 51 1 (Some ''ok'') (Some ''calm'') None (Some ''7''))
             = Resp 201 (Msg RegistroSalvo)"
    and c: "\<lparr>r_id = next_id (map r_id (registros ?db)), data = 51, humor = ''ok'',
            como_se_sentiu = ''calm'', descricao = None, horas_sono = ''7'', id_usuario = 1\<rparr>
            \<in> set (registros (fst (registrar_dados ?db 51 1 (Some ''ok'') (Some ''calm'') None (Some ''7''))))"
    by blast+
  from c have c': "reg 2 51 1
            \<in> set (registros (fst (registrar_dados ?db 51 1 (Some ''ok'') (Some ''calm'') None (Some ''7''))))"
    unfolding k .
  show ?thesis using y n a b c' by simp
qed

section \<open>Uniqueness of account and date\<close>

text \<open>
  Claim C2, as stated, fails: class \<open>Registro\<close> declares no uniqueness constraint, and the
  store takes a second row of account 1 and date 50.
\<close>

theorem registro_store_accepts_second_row_counterexample:
  "registro_insert 50 (Some ''ok'') (Some ''calm'') None (Some ''7'') 1 [reg 1 50 1]
     = Inr [reg 1 50 1, reg 2 50 1]
   \<and> id_usuario (reg 2 50 1) = id_usuario (reg 1 50 1) \<and> data (reg 2 50 1) = data (reg 1 50 1)
   \<and> \<not> um_por_dia [reg 1 50 1, reg 2 50 1]"
  by (simp add: registro_insert_def novo_registro_def next_id_def reg_def um_por_dia_def)

text \<open>
  Claim C2, amended. The store rejects a \<open>Registro\<close> only when one of its NOT NULL
  columns is missing; otherwise it appends the row, whether or not a row of the same
  account and date exists. That no account has two rows of one date is kept by the
  existence check of \<open>registrar_dados\<close>: every request preserves it, and every run of
  requests from the empty database has it.
\<close>

theorem registro_uniqueness_by_application_check:
  "(registro_insert d h c ds s uid rows = Inl IntegrityError) = (h = None \<or> c = None \<or> s = None)
   \<and> registro_insert d (Some hm) (Some cs) ds (Some hs) uid rows
        = Inr (rows @ [novo_registro rows d hm cs ds hs uid])
   \<and> (um_por_dia (registros db) \<longrightarrow> um_por_dia (registros (fst (handle cb db q))))
   \<and> um_por_dia (registros (run cb empty_db qs))"
proof (intro conjI impI)
  show "(registro_insert d h c ds s uid rows = Inl IntegrityError) = (h = None \<or> c = None \<or> s = None)"
    by (cases h; cases c; cases s) (simp_all add: registro_insert_def)
  show "registro_insert d (Some hm) (Some cs) ds (Some hs) uid rows
        = Inr (rows @ [novo_registro rows d hm cs ds hs uid])"
    by (simp add: registro_insert_def)
  show "um_por_dia (registros (run cb empty_db qs))"
    by (rule um_por_dia_run) (simp add: empty_db_def um_por_dia_def)
next
  assume "um_por_dia (registros db)"
  then show "um_por_dia (registros (fst (handle cb db q)))" by (rule um_por_dia_step)
qed

theorem registro_uniqueness_by_application_check_witness:
  "um_por_dia [reg 1 50 1]
   \<and> um_por_dia (registros (fst (handle toy \<lparr>usuarios = [ana], registros = [reg 1 50 1]\<rparr>
        (ReqRegistro 50 1 (Some ''ok'') (Some ''calm'') None (Some ''7'')))))
   \<and> registro_insert 50 (Some ''ok'') (Some ''calm'') None (Some ''7'') 1 [reg 1 50 1]
        = Inr [reg 1 50 1, reg 2 50 1]"
proof -
  let ?db = "\<lparr>usuarios = [ana], registros = [reg 1 50 1]\<rparr>"
  have u: "um_por_dia (registros ?db)" by (simp add: um_por_dia_def)
  have k: "novo_registro [reg 1 50 1] 50 ''ok'' ''calm'' None ''7'' 1 = reg 2 50 1"
    by (simp add: novo_registro_def reg_def next_id_def)
  note t = registro_uniqueness_by_application_check [where db = ?db and cb = toy
      and q = "ReqRegistro 50 1 (Some ''ok'') (Some ''calm'') None (Some ''7'')"
      and d = 50 and hm = "''ok''" and cs = "''calm''" and ds = None and hs = "''7''" and uid = 1
      and rows = "[reg 1 50 1]"]
  from t u have a: "um_por_dia (registros (fst (handle toy ?db
        (ReqRegistro 50 1 (Some ''ok'') (Some ''calm'') None (Some ''7'')))))"
    by blast
  from t have b: "registro_insert 50 (Some ''ok'') (Some ''calm'') None (Some ''7'') 1 [reg 1 50 1]
        = Inr ([reg 1 50 1] @ [novo_registro [reg 1 50 1] 50 ''ok'' ''calm'' None ''7'' 1])"
    by blast
  show ?thesis using u a b unfolding k by simp
qed

section \<open>Listing the recent entries\<close>

lemma sorted_desc_rev:
  "sorted (map (\<lambda>r. - data r) xs) \<Longrightarrow> sorted (map data (rev xs))"
proof -
  assume "sorted (map (\<lambda>r. - data r) xs)"
  then have "sorted_wrt (\<lambda>a b. data b \<le> data a) xs"
    by (simp add: sorted_wrt_map)
  then have "sorted_wrt (\<lambda>a b. data a \<le> data b) (rev xs)"
    by (simp add: sorted_wrt_rev)
  then show ?thesis by (simp add: sorted_wrt_map)
qed

lemma recentes_props:
  "length (recentes i rows) = min 11 (length (registros_de i rows))"
  "sorted (map data (rev (recentes i rows)))"
  "\<exists>rest. mset (rev (recentes i rows)) + mset rest = mset (registros_de i rows)
          \<and> (\<forall>x \<in> set rest. \<forall>y \<in> set (rev (recentes i rows)). data x \<le> data y)"
proof -
  let ?L = "registros_de i rows"
  let ?S = "sort_key (\<lambda>r. - data r) ?L"
  have r: "recentes i rows = take 11 ?S" by (simp add: recentes_def)
  show "length (recentes i rows) = min 11 (length ?L)" by (simp add: r min.commute)
  have srt: "sorted (map (\<lambda>r. - data r) ?S)" by simp
  then have "sorted (map (\<lambda>r. - data r) (take 11 ?S))"
    by (simp add: take_map [symmetric] sorted_wrt_take)
  then show "sorted (map data (rev (recentes i rows)))"
    unfolding r by (rule sorted_desc_rev)
  have "sorted (map (\<lambda>r. - data r) (take 11 ?S @ drop 11 ?S))" using srt by simp
  then have le: "\<forall>y \<in> set (take 11 ?S). \<forall>x \<in> set (drop 11 ?S). data x \<le> data y"
    by (simp add: sorted_append del: append_take_drop_id)
  have "mset (take 11 ?S) + mset (drop 11 ?S) = mset ?S"
    by (simp add: union_code)
  then have "mset (rev (recentes i rows)) + mset (drop 11 ?S) = mset ?L"
    by (simp add: r)
  with le show "\<exists>rest. mset (rev (recentes i rows)) + mset rest = mset ?L
          \<and> (\<forall>x \<in> set rest. \<forall>y \<in> set (rev (recentes i rows)). data x \<le> data y)"
    unfolding r by (intro exI [of _ "drop 11 ?S"]) auto
qed

text \<open>
  Claim C6. \<open>obter_registros\<close> answers 200 with the views of the rows of the account
  taken as the first eleven in descending order of date and then reversed: at most eleven
  rows (all of them when the account has no more), in ascending order of date, and every
  row of the account left out has a date no later than each row returned. The view of a
  row carries its date as rendered by \<open>strftime\<close> and its \<open>humor\<close>,
  \<open>como_se_sentiu\<close>, \<open>descricao\<close> and \<open>horas_sono\<close>. The database is returned as
  it was, and a second call gives the same answer.
\<close>

theorem obter_registros_recent_oldest_first:
  "\<exists>rs. obter_registros c db i
        = (db, Resp 200 (Registros (map (\<lambda>r. \<lparr>v_data = strftime c (data r), v_humor = humor r,
                                            v_como_se_sentiu = como_se_sentiu r,
                                            v_descricao = descricao r,
                                            v_horas_sono = horas_sono r\<rparr>) rs)))
      \<and> rs = rev (take 11 (sort_key (\<lambda>r. - data r) (registros_de i (registros db))))
      \<and> length rs = min 11 (length (registros_de i (registros db)))
      \<and> length rs \<le> 11
      \<and> sorted (map data rs)
      \<and> (\<exists>rest. mset rs + mset rest = mset (registros_de i (registros db))
            \<and> (\<forall>x \<in> set rest. \<forall>y \<in> set rs. data x \<le> data y))
      \<and> obter_registros c (fst (obter_registros c db i)) i = obter_registros c db i"
proof -
  let ?rs = "rev (recentes i (registros db))"
  have v: "view c = (\<lambda>r. \<lparr>v_data = strftime c (data r), v_humor = humor r,
                           v_como_se_sentiu = como_se_sentiu r, v_descricao = descricao r,
                           v_horas_sono = horas_sono r\<rparr>)"
    by (rule ext) (simp add: view_def)
  have "obter_registros c db i = (db, Resp 200 (Registros (map (view c) ?rs)))"
    by (simp add: obter_registros_def Let_def rev_map)
  then have a: "obter_registros c db i
        = (db, Resp 200 (Registros (map (\<lambda>r. \<lparr>v_data = strftime c (data r), v_humor = humor r,
                                            v_como_se_sentiu = como_se_sentiu r,
                                            v_descricao = descricao r,
                                            v_horas_sono = horas_sono r\<rparr>) ?rs)))"
    unfolding v .
  have b: "?rs = rev (take 11 (sort_key (\<lambda>r. - data r) (registros_de i (registros db))))"
    by (simp add: recentes_def)
  have l: "length ?rs = min 11 (length (registros_de i (registros db)))"
    using recentes_props(1) [of i "registros db"] by simp
  then have l': "length ?rs \<le> 11" by simp
  have e: "obter_registros c (fst (obter_registros c db i)) i = obter_registros c db i"
    by (simp add: a)
  from a b l l' recentes_props(2,3) [of i "registros db"] e
  show ?thesis by blast
qed

theorem obter_registros_recent_oldest_first_witness:
  "obter_registros toy \<lparr>usuarios = [ana], registros = onze\<rparr> 1
     = (\<lparr>usuarios = [ana], registros = onze\<rparr>,
        Resp 200 (Registros (map (\<lambda>d. \<lparr>v_data = d, v_humor = ''ok'', v_como_se_sentiu = ''calm'',
                                        v_descricao = None, v_horas_sono = ''7''\<rparr>)
          [''10'', ''11'', ''12'', ''13'', ''14'', ''15'', ''16'', ''17'', ''18'', ''19'', ''50''])))
   \<and> obter_registros toy
        \<lparr>usuarios = [ana],
         registros = \<lparr>r_id = 13, data = 60, humor = ''sad'', como_se_sentiu = ''tired'',
                       descricao = Some ''long day'', horas_sono = ''5'', id_usuario = 1\<rparr> # onze\<rparr> 1
     = (\<lparr>usuarios = [ana],
         registros = \<lparr>r_id = 13, data = 60, humor = ''sad'', como_se_sentiu = ''tired'',
                       descricao = Some ''long day'', horas_sono = ''5'', id_usuario = 1\<rparr> # onze\<rparr>,
        Resp 200 (Registros (map (\<lambda>d. \<lparr>v_data = d, v_humor = ''ok'', v_como_se_sentiu = ''calm'',
                                        v_descricao = None, v_horas_sono = ''7''\<rparr>)
          [''11'', ''12'', ''13'', ''14'', ''15'', ''16'', ''17'', ''18'', ''19'', ''50'']
          @ [\<lparr>v_data = ''60'', v_humor = ''sad'', v_como_se_sentiu = ''tired'',
               v_descricao = Some ''long day'', v_horas_sono = ''5''\<rparr>])))"
proof -
  let ?x = "\<lparr>r_id = 13, data = 60, humor = ''sad'', como_se_sentiu = ''tired'',
             descricao = Some ''long day'', horas_sono = ''5'', id_usuario = 1\<rparr>"
  let ?db1 = "\<lparr>usuarios = [ana], registros = onze\<rparr>"
  let ?db2 = "\<lparr>usuarios = [ana], registros = ?x # onze\<rparr>"
  let ?vw = "\<lambda>r. \<lparr>v_data = strftime toy (data r), v_humor = humor r,
                   v_como_se_sentiu = como_se_sentiu r, v_descricao = descricao r,
                   v_horas_sono = horas_sono r\<rparr>"
  have d: "str_int 10 = ''10''" "str_int 11 = ''11''" "str_int 12 = ''12''"
    "str_int 13 = ''13''" "str_int 14 = ''14''" "str_int 15 = ''15''" "str_int 16 = ''16''"
    "str_int 17 = ''17''" "str_int 18 = ''18''" "str_int 19 = ''19''" "str_int 50 = ''50''"
    "str_int 60 = ''60''"
    by code_simp+
  have s1: "rev (take 11 (sort_key (\<lambda>r. - data r) (registros_de 1 (registros ?db1))))
          = [reg 2 10 1, reg 4 11 1, reg 5 12 1, reg 6 13 1, reg 7 14 1, reg 8 15 1,
             reg 9 16 1, reg 10 17 1, reg 11 18 1, reg 12 19 1, reg 1 50 1]"
    by (simp add: registros_de_def onze_def reg_def)
  have s2: "rev (take 11 (sort_key (\<lambda>r. - data r) (registros_de 1 (registros ?db2))))
          = [reg 4 11 1, reg 5 12 1, reg 6 13 1, reg 7 14 1, reg 8 15 1,
             reg 9 16 1, reg 10 17 1, reg 11 18 1, reg 12 19 1, reg 1 50 1, ?x]"
    by (simp add: registros_de_def onze_def reg_def)
  have m1: "map ?vw [reg 2 10 1, reg 4 11 1, reg 5 12 1, reg 6 13 1, reg 7 14 1, reg 8 15 1,
             reg 9 16 1, reg 10 17 1, reg 11 18 1, reg 12 19 1, reg 1 50 1]
          = map (\<lambda>d. \<lparr>v_data = d, v_humor = ''ok'', v_como_se_sentiu = ''calm'',
                        v_descricao = None, v_horas_sono = ''7''\<rparr>)
              [''10'', ''11'', ''12'', ''13'', ''14'', ''15'', ''16'', ''17'', ''18'', ''19'', ''50'']"
    by (simp add: reg_def toy_def d)
  have m2: "map ?vw [reg 4 11 1, reg 5 12 1, reg 6 13 1, reg 7 14 1, reg 8 15 1,
             reg 9 16 1, reg 10 17 1, reg 11 18 1, reg 12 19 1, reg 1 50 1, ?x]
          = map (\<lambda>d. \<lparr>v_data = d, v_humor = ''ok'', v_como_se_sentiu = ''calm'',
                        v_descricao = None, v_horas_sono = ''7''\<rparr>)
              [''11'', ''12'', ''13'', ''14'', ''15'', ''16'', ''17'', ''18'', ''19'', ''50'']
            @ [\<lparr>v_data = ''60'', v_humor = ''sad'', v_como_se_sentiu = ''tired'',
                 v_descricao = Some ''long day'', v_horas_sono = ''5''\<rparr>]"
    by (simp add: reg_def toy_def d)
  from obter_registros_recent_oldest_first [of toy ?db1 1]
  have a: "obter_registros toy ?db1 1
     = (?db1, Resp 200 (Registros (map ?vw
          (rev (take 11 (sort_key (\<lambda>r. - data r) (registros_de 1 (registros ?db1))))))))"
    by blast
  from obter_registros_recent_oldest_first [of toy ?db2 1]
  have b: "obter_registros toy ?db2 1
     = (?db2, Resp 200 (Registros (map ?vw
          (rev (take 11 (sort_key (\<lambda>r. - data r) (registros_de 1 (registros ?db2))))))))"
    by blast
  from a b show ?thesis unfolding s1 s2 m1 m2 by (rule conjI)
qed

end
